theory Spec2Isabelle
  imports Complex_Main "HOL-Library.AList"
begin

section \<open>Python values and exceptions\<close>

text \<open>
  The dashboard script \<^verbatim>\<open>app/main.py\<close> is embedded function by function. An exception
  is a value of type \<open>error\<close>; a function that can raise returns \<open>error + 'a\<close> with the
  exception on the left. The string carried by an exception is its message, shortened.
\<close>

datatype error =
    IndexError string
  | KeyError string
  | ValueError string
  | TypeError string
  | FileNotFoundError string
  | ZeroDivisionError string
  | OSError string

text \<open>Sequencing of two computations that may raise: the first exception wins.\<close>

definition bnd :: "error + 'a \<Rightarrow> ('a \<Rightarrow> error + 'b) \<Rightarrow> error + 'b" where
  "bnd m f = (case m of Inl e \<Rightarrow> Inl e | Inr v \<Rightarrow> f v)"

text \<open>
  A Python \<^verbatim>\<open>float\<close> is the real number it denotes, or not-a-number. The script never
  computes with the coordinates it stores; it only copies, compares and rounds them.
\<close>

datatype pyfloat = NaN | Fl real

datatype number = PyInt int | PyFloat pyfloat

text \<open>\<^verbatim>\<open>xs[i]\<close> on a Python list: a negative index counts from the end.\<close>

definition py_index :: "'a list \<Rightarrow> int \<Rightarrow> error + 'a" where
  "py_index xs i =
     (if 0 \<le> i \<and> i < int (length xs) then Inr (xs ! nat i)
      else if i < 0 \<and> - int (length xs) \<le> i then Inr (xs ! nat (int (length xs) + i))
      else Inl (IndexError ''list index out of range''))"

text \<open>\<^verbatim>\<open>s.endswith(suffix)\<close>.\<close>

definition endswith :: "string \<Rightarrow> string \<Rightarrow> bool" where
  "endswith s suf = (length suf \<le> length s \<and> drop (length s - length suf) s = suf)"

text \<open>\<^verbatim>\<open>os.path.join(a, b)\<close> for two components (POSIX).\<close>

definition os_path_join :: "string \<Rightarrow> string \<Rightarrow> string" where
  "os_path_join a b =
     (if b \<noteq> [] \<and> hd b = CHR ''/'' then b
      else if a = [] \<or> last a = CHR ''/'' then a @ b
      else a @ ''/'' @ b)"

section \<open>Arrays and datasets\<close>

text \<open>
  A numpy array is given by nesting, one \<open>Axis\<close> per dimension; \<open>Item\<close> is a 0-dimensional
  array. A table of coordinates is a list of rows.
\<close>

datatype ndarray = Item number | Axis "ndarray list"

type_synonym table = "pyfloat list list"

definition of_table :: "table \<Rightarrow> ndarray" where
  "of_table t = Axis (map (\<lambda>r. Axis (map (\<lambda>v. Item (PyFloat v)) r)) t)"

definition of_pixels :: "int list list \<Rightarrow> ndarray" where
  "of_pixels p = Axis (map (\<lambda>r. Axis (map (\<lambda>v. Item (PyInt v)) r)) p)"

text \<open>\<^verbatim>\<open>np.full((rows, cols), v)\<close>.\<close>

definition np_full :: "nat \<Rightarrow> nat \<Rightarrow> pyfloat \<Rightarrow> table" where
  "np_full rows cols v = replicate rows (replicate cols v)"

text \<open>
  \<^verbatim>\<open>a[index, :] = row\<close> for an index produced by \<^verbatim>\<open>range\<close>: numpy raises IndexError when
  the index is not below the number of rows.
\<close>

definition set_row :: "table \<Rightarrow> nat \<Rightarrow> pyfloat list \<Rightarrow> error + table" where
  "set_row t index row =
     (if index < length t then Inr (t[index := row])
      else Inl (IndexError ''index is out of bounds for axis 0''))"

text \<open>
  The image of a recording, as \<^verbatim>\<open>read_image_file\<close> returns it: a time stack (three
  dimensions: frame, row, column) or a single frame. Pixel intensities are integers.
\<close>

datatype image = Frame "int list list" | Stack "int list list list"

text \<open>
  The data variables of one record, in the order they were stored. A dataset file holds
  either nothing, or one record whose \<^verbatim>\<open>path\<close> coordinate is a scalar (what
  \<^verbatim>\<open>xr.Dataset(data_vars, coords)\<close> builds), or several records along a \<^verbatim>\<open>path\<close>
  dimension (what \<^verbatim>\<open>xr.concat(..., dim='path')\<close> builds). The path label is what
  \<^verbatim>\<open>get_full_path\<close> returned, which may be \<^verbatim>\<open>None\<close>. The remaining coordinates only
  label axes and are not kept.
\<close>

type_synonym variables = "(string \<times> ndarray) list"

datatype dataset =
    Empty_dataset
  | Scalar_path "string option" variables
  | Path_axis "(string option \<times> variables) list"

datatype file_content = Dataset_file dataset | Other_file

section \<open>The state of the dashboard and of the file system\<close>

record roi_source =
  roi_x :: "pyfloat list"
  roi_y :: "pyfloat list"
  roi_width :: "pyfloat list"
  roi_height :: "pyfloat list"

record vector_source =
  vec_xs :: "pyfloat list list"
  vec_ys :: "pyfloat list list"

text \<open>
  The widgets and column data sources the functions read. \<open>raw_image\<close> and \<open>raw_meta\<close>
  are the lists \<^verbatim>\<open>raw_source.data['image']\<close> and \<^verbatim>\<open>raw_source.data['meta']\<close>, empty
  until an image is selected. ScanImage metadata is a dictionary of dictionaries of
  numbers, or \<^verbatim>\<open>None\<close>.
\<close>

type_synonym metadata = "(string \<times> (string \<times> number) list) list"

record app =
  base_dir_input :: string
  image_select :: string
  raw_image :: "image list"
  raw_meta :: "metadata option list"
  rois :: roi_source
  vectors :: vector_source
  fov_input :: string
  line_rate_input :: string
  frame_rate_input :: string

text \<open>
  What the script sees of the operating system: \<open>walk base\<close> is the sequence of
  \<^verbatim>\<open>(root, files)\<close> pairs that \<^verbatim>\<open>os.walk(base)\<close> yields, \<open>dirs\<close> the existing
  directories, \<open>files\<close> the regular files with their content, \<open>write_error d\<close> the
  exception, if any, that writing the dataset \<open>d\<close> to disk meets (a full disk, a value
  that cannot be serialised), \<open>console\<close> the lines printed so far and \<open>events\<close> the
  assignments to dataset fields and the file operations carried out so far.
\<close>

datatype event =
    Assign string
  | Concat "string option"
  | Remove string
  | Write string dataset

record world =
  walk :: "string \<Rightarrow> (string \<times> string list) list"
  dirs :: "string list"
  files :: "string \<rightharpoonup> file_content"
  write_error :: "dataset \<Rightarrow> error option"
  console :: "string list"
  events :: "event list"

definition print :: "string \<Rightarrow> world \<Rightarrow> world" where
  "print s w = w\<lparr>console := console w @ [s]\<rparr>"

definition emit :: "event \<Rightarrow> world \<Rightarrow> world" where
  "emit ev w = w\<lparr>events := events w @ [ev]\<rparr>"

text \<open>
  Behaviour of the interpreter and of the array library that the script relies on and
  that is left open here: parsing a string as an integer or a float (\<open>None\<close> stands for
  ValueError), printing a number, the outcome of assigning a \<^verbatim>\<open>(dims, array)\<close> tuple
  through \<^verbatim>\<open>.loc\<close> to the stored array of one path, and the exception, if any, that
  \<^verbatim>\<open>xr.concat\<close> raises when the two datasets cannot be aligned.
\<close>

record library =
  int_of_str :: "string \<Rightarrow> int option"
  float_of_str :: "string \<Rightarrow> pyfloat option"
  str_of :: "number \<Rightarrow> string"
  loc_assign_tuple :: "ndarray \<Rightarrow> string list \<Rightarrow> ndarray option \<Rightarrow> error + ndarray"
  concat_error :: "dataset \<Rightarrow> dataset \<Rightarrow> error option"

section \<open>File discovery\<close>

definition IMAGE_EXT :: string where
  "IMAGE_EXT = ''.tif''"

definition get_file_paths :: "world \<Rightarrow> app \<Rightarrow> string \<Rightarrow> string list" where
  "get_file_paths w a ext =
     concat (map (\<lambda>(root, fs). map (os_path_join root) (filter (\<lambda>f. endswith f ext) fs))
                 (walk w (base_dir_input a)))"

definition get_db_path :: "world \<Rightarrow> app \<Rightarrow> string option" where
  "get_db_path w a =
     (if base_dir_input a \<in> set (dirs w)
      then Some (os_path_join (base_dir_input a) ''db.nc'') else None)"

text \<open>
  \<^verbatim>\<open>xr.open_dataset(path)\<close>: a missing file raises FileNotFoundError. A path that is
  \<^verbatim>\<open>None\<close> and a file that is not a dataset raise other exceptions, whose class depends
  on the installed backend.
\<close>

definition open_dataset :: "world \<Rightarrow> string option \<Rightarrow> error + dataset" where
  "open_dataset w p =
     (case p of
        None \<Rightarrow> Inl (TypeError ''invalid file name'')
      | Some q \<Rightarrow>
          (case files w q of
             None \<Rightarrow> Inl (FileNotFoundError q)
           | Some Other_file \<Rightarrow> Inl (OSError ''unknown file format'')
           | Some (Dataset_file d) \<Rightarrow> Inr d))"

definition read_db :: "world \<Rightarrow> app \<Rightarrow> error + dataset" where
  "read_db w a =
     (case open_dataset w (get_db_path w a) of
        Inl (FileNotFoundError m) \<Rightarrow> Inr Empty_dataset
      | r \<Rightarrow> r)"

text \<open>
  \<^verbatim>\<open>get_full_path\<close> returns the first discovered path that ends with the relative path.
  When there is none, indexing the empty list raises IndexError, which is caught: the
  function prints and falls off its end, returning \<^verbatim>\<open>None\<close>.
\<close>

definition get_full_path :: "world \<Rightarrow> app \<Rightarrow> string \<Rightarrow> world \<times> string option" where
  "get_full_path w a relative_path =
     (case py_index (filter (\<lambda>f. endswith f relative_path) (get_file_paths w a IMAGE_EXT)) 0 of
        Inr p \<Rightarrow> (w, Some p)
      | Inl (IndexError m) \<Rightarrow> (print ''Failed to find appropriate image path'' w, None)
      | Inl e \<Rightarrow> (w, None))"

section \<open>The coordinate tables\<close>

definition get_roi_params :: "roi_source \<Rightarrow> int \<Rightarrow> error + pyfloat list" where
  "get_roi_params values index =
     bnd (py_index (roi_x values) index) (\<lambda>x.
     bnd (py_index (roi_y values) index) (\<lambda>y.
     bnd (py_index (roi_width values) index) (\<lambda>width.
     bnd (py_index (roi_height values) index) (\<lambda>height.
       Inr [x, y, width, height]))))"

definition get_vector_params :: "vector_source \<Rightarrow> int \<Rightarrow> error + pyfloat list" where
  "get_vector_params values index =
     bnd (bnd (py_index (vec_xs values) index) (\<lambda>v. py_index v 0)) (\<lambda>x_start.
     bnd (bnd (py_index (vec_xs values) index) (\<lambda>v. py_index v 1)) (\<lambda>x_end.
     bnd (bnd (py_index (vec_ys values) index) (\<lambda>v. py_index v 0)) (\<lambda>y_start.
     bnd (bnd (py_index (vec_ys values) index) (\<lambda>v. py_index v 1)) (\<lambda>y_end.
       Inr [x_start, x_end, y_start, y_end]))))"

text \<open>
  The loop \<^verbatim>\<open>for index in range(n): data[index, :] = params(index)\<close>. The right-hand
  side is evaluated before the row is stored.
\<close>

fun assign_rows :: "(int \<Rightarrow> error + pyfloat list) \<Rightarrow> nat list \<Rightarrow> table \<Rightarrow> error + table" where
  "assign_rows params [] t = Inr t"
| "assign_rows params (index # rest) t =
     bnd (params (int index)) (\<lambda>row.
     bnd (set_row t index row) (\<lambda>t'. assign_rows params rest t'))"

definition get_roi_data_by_index :: "roi_source \<Rightarrow> error + table" where
  "get_roi_data_by_index src =
     assign_rows (get_roi_params src) [0..<length (roi_x src)] (np_full 50 4 NaN)"

definition get_vector_data_by_index :: "vector_source \<Rightarrow> error + table" where
  "get_vector_data_by_index src =
     assign_rows (get_vector_params src) [0..<length (vec_xs src)] (np_full 50 4 NaN)"

section \<open>Well-formed inputs\<close>

text \<open>
  The columns of a Bokeh column data source have one entry per glyph: the four columns of
  the ROI source have the same length, and each vector has two x and two y coordinates.
\<close>

definition roi_columns_ok :: "roi_source \<Rightarrow> bool" where
  "roi_columns_ok src =
     (length (roi_y src) = length (roi_x src) \<and> length (roi_width src) = length (roi_x src)
      \<and> length (roi_height src) = length (roi_x src))"

definition vector_columns_ok :: "vector_source \<Rightarrow> bool" where
  "vector_columns_ok src =
     (length (vec_ys src) = length (vec_xs src)
      \<and> (\<forall>v \<in> set (vec_xs src). 2 \<le> length v) \<and> (\<forall>v \<in> set (vec_ys src). 2 \<le> length v))"


section \<open>A small example\<close>

text \<open>
  A base directory with the recording \<^verbatim>\<open>a.tif\<close> at two depths and no dataset file yet;
  the recording has two frames of two rows and two columns.
\<close>

definition example_app :: app where
  "example_app =
     \<lparr>base_dir_input = ''/data'', image_select = ''/a.tif'',
      raw_image = [Stack [[[1, 2], [3, 4]], [[5, 0], [2, 9]]]],
      raw_meta = [Some [(''FrameData'', [(''SI.hRoiManager.scanZoomFactor'', PyInt 0)])]],
      rois = \<lparr>roi_x = [Fl 1], roi_y = [Fl 1], roi_width = [Fl 2], roi_height = [Fl 2]\<rparr>,
      vectors = \<lparr>vec_xs = [[Fl 0, Fl 1]], vec_ys = [[Fl 0, Fl 1]]\<rparr>,
      fov_input = ''870'', line_rate_input = ''2.0'', frame_rate_input = ''30.0''\<rparr>"

definition example_world :: world where
  "example_world =
     \<lparr>walk = (\<lambda>base. if base = ''/data''
                     then [(''/data'', [''a.tif'', ''db.nc'']), (''/data/s'', [''a.tif''])] else []),
      dirs = [''/data''], files = Map.empty, write_error = (\<lambda>d. None),
      console = [], events = []\<rparr>"

section \<open>Frames and projection\<close>

definition get_current_image :: "app \<Rightarrow> error + image" where
  "get_current_image a = py_index (raw_image a) 0"

text \<open>
  \<^verbatim>\<open>np.max(image, axis=0)\<close>: the element-wise maximum of the frames. numpy raises
  ValueError when there is no frame to take a maximum of.
\<close>

definition np_max_axis0 :: "int list list list \<Rightarrow> error + int list list" where
  "np_max_axis0 fs =
     (case fs of
        [] \<Rightarrow> Inl (ValueError ''zero-size array to reduction operation maximum'')
      | f # rest \<Rightarrow> Inr (foldl (map2 (map2 max)) f rest))"

definition calculate_2d_projection :: "app \<Rightarrow> error + int list list option" where
  "calculate_2d_projection a =
     bnd (get_current_image a) (\<lambda>image.
       case image of
         Stack fs \<Rightarrow> bnd (np_max_axis0 fs) (\<lambda>p. Inr (Some p))
       | Frame f \<Rightarrow> Inr None)"

text \<open>A frame of \<open>h\<close> rows and \<open>w\<close> columns.\<close>

definition frame_shape :: "int list list \<Rightarrow> nat \<Rightarrow> nat \<Rightarrow> bool" where
  "frame_shape f h w = (length f = h \<and> (\<forall>r \<in> set f. length r = w))"

section \<open>The region of an ROI\<close>

text \<open>
  \<^verbatim>\<open>round(x)\<close> of a float: the nearest integer, a tie going to the even one; not-a-number
  raises ValueError.
\<close>

definition py_round :: "real \<Rightarrow> int" where
  "py_round r =
     (if r - of_int \<lfloor>r\<rfloor> < 1 / 2 then \<lfloor>r\<rfloor>
      else if 1 / 2 < r - of_int \<lfloor>r\<rfloor> then \<lfloor>r\<rfloor> + 1
      else if even \<lfloor>r\<rfloor> then \<lfloor>r\<rfloor> else \<lfloor>r\<rfloor> + 1)"

definition round_float :: "pyfloat \<Rightarrow> error + int" where
  "round_float v =
     (case v of
        NaN \<Rightarrow> Inl (ValueError ''cannot convert float NaN to integer'')
      | Fl r \<Rightarrow> Inr (py_round r))"

text \<open>
  A slice \<^verbatim>\<open>xs[start:stop]\<close>: a negative bound counts from the end, and both bounds are
  clipped to the length, so that a slice never raises.
\<close>

definition slice_bound :: "nat \<Rightarrow> int \<Rightarrow> nat" where
  "slice_bound n i = (if i < 0 then nat (max 0 (int n + i)) else min n (nat i))"

definition py_slice :: "'a list \<Rightarrow> int \<Rightarrow> int \<Rightarrow> 'a list" where
  "py_slice xs start stop =
     take (slice_bound (length xs) stop - slice_bound (length xs) start)
          (drop (slice_bound (length xs) start) xs)"

text \<open>An integer index on the first axis of an array.\<close>

definition np_index :: "'a list \<Rightarrow> int \<Rightarrow> error + 'a" where
  "np_index xs i =
     (if 0 \<le> i \<and> i < int (length xs) then Inr (xs ! nat i)
      else if i < 0 \<and> - int (length xs) \<le> i then Inr (xs ! nat (int (length xs) + i))
      else Inl (IndexError ''index is out of bounds for axis 0''))"

definition get_roi_data :: "app \<Rightarrow> int \<Rightarrow> int \<Rightarrow> error + int list list" where
  "get_roi_data a roi_index frame =
     bnd (bnd (py_index (roi_width (rois a)) roi_index) round_float) (\<lambda>width.
     bnd (bnd (py_index (roi_height (rois a)) roi_index) round_float) (\<lambda>height.
     bnd (bnd (py_index (roi_x (rois a)) roi_index) round_float) (\<lambda>x_center.
     bnd (bnd (py_index (roi_y (rois a)) roi_index) round_float) (\<lambda>y_center.
       let x_start = x_center - width div 2;
           x_end = x_center + width div 2;
           y_start = y_center - height div 2;
           y_end = y_center + height div 2
       in bnd (get_current_image a) (\<lambda>image.
            case image of
              Stack fs \<Rightarrow>
                bnd (np_index fs frame) (\<lambda>f.
                  Inr (map (\<lambda>row. py_slice row x_start x_end) (py_slice f y_start y_end)))
            | Frame f \<Rightarrow> Inl (IndexError ''too many indices for array''))))))"

text \<open>
  One frame of three rows and four columns with two ROIs of width 3 and height 2: the
  first inside the image, the second centred on its right border.
\<close>

definition roi_example_app :: app where
  "roi_example_app =
     example_app\<lparr>raw_image := [Stack [[[1, 2, 3, 4], [5, 6, 7, 8], [9, 10, 11, 12]]]],
                  rois := \<lparr>roi_x = [Fl 2, Fl 4], roi_y = [Fl 1, Fl 1],
                            roi_width = [Fl 3, Fl 3], roi_height = [Fl 2, Fl 2]\<rparr>\<rparr>"

section \<open>Acquisition parameters\<close>

text \<open>\<^verbatim>\<open>d[k]\<close> on a dictionary: a missing key raises KeyError.\<close>

definition dict_get :: "(string \<times> 'v) list \<Rightarrow> string \<Rightarrow> error + 'v" where
  "dict_get d k = (case map_of d k of None \<Rightarrow> Inl (KeyError k) | Some v \<Rightarrow> Inr v)"

text \<open>
  Arithmetic and truth value of Python numbers. Floats are computed with as real numbers:
  rounding and overflow are left out; not-a-number is kept. Multiplying or dividing with
  \<^verbatim>\<open>None\<close> raises TypeError, dividing by zero ZeroDivisionError.
\<close>

definition to_float :: "number \<Rightarrow> pyfloat" where
  "to_float n = (case n of PyInt i \<Rightarrow> Fl (of_int i) | PyFloat f \<Rightarrow> f)"

definition is_zero :: "number \<Rightarrow> bool" where
  "is_zero n = (case n of PyInt i \<Rightarrow> i = 0 | PyFloat NaN \<Rightarrow> False | PyFloat (Fl r) \<Rightarrow> r = 0)"

definition truthy :: "number option \<Rightarrow> bool" where
  "truthy v = (case v of None \<Rightarrow> False | Some n \<Rightarrow> \<not> is_zero n)"

definition float_mul :: "pyfloat \<Rightarrow> pyfloat \<Rightarrow> pyfloat" where
  "float_mul x y = (case (x, y) of (Fl r, Fl s) \<Rightarrow> Fl (r * s) | _ \<Rightarrow> NaN)"

definition float_div :: "pyfloat \<Rightarrow> pyfloat \<Rightarrow> pyfloat" where
  "float_div x y = (case (x, y) of (Fl r, Fl s) \<Rightarrow> Fl (r / s) | _ \<Rightarrow> NaN)"

definition py_mul :: "number option \<Rightarrow> number option \<Rightarrow> error + number" where
  "py_mul x y =
     (case (x, y) of
        (Some (PyInt i), Some (PyInt j)) \<Rightarrow> Inr (PyInt (i * j))
      | (Some m, Some n) \<Rightarrow> Inr (PyFloat (float_mul (to_float m) (to_float n)))
      | _ \<Rightarrow> Inl (TypeError ''unsupported operand type(s) for *''))"

definition py_truediv :: "number option \<Rightarrow> number option \<Rightarrow> error + number" where
  "py_truediv x y =
     (case (x, y) of
        (Some m, Some n) \<Rightarrow>
          if is_zero n then Inl (ZeroDivisionError ''division by zero'')
          else Inr (PyFloat (float_div (to_float m) (to_float n)))
      | _ \<Rightarrow> Inl (TypeError ''unsupported operand type(s) for /''))"

definition get_current_metadata :: "app \<Rightarrow> metadata option" where
  "get_current_metadata a = (case py_index (raw_meta a) 0 of Inr meta \<Rightarrow> meta | Inl e \<Rightarrow> None)"

text \<open>\<^verbatim>\<open>meta['FrameData'][key]\<close> under \<^verbatim>\<open>if meta:\<close>; an empty dictionary is false.\<close>

definition frame_data :: "app \<Rightarrow> string \<Rightarrow> error + number option" where
  "frame_data a key =
     (case get_current_metadata a of
        None \<Rightarrow> Inr None
      | Some meta \<Rightarrow>
          if meta = [] then Inr None
          else bnd (dict_get meta ''FrameData'') (\<lambda>fd.
               bnd (dict_get fd key) (\<lambda>v. Inr (Some v))))"

definition get_frame_rate :: "app \<Rightarrow> error + number option" where
  "get_frame_rate a = frame_data a ''SI.hRoiManager.scanFrameRate''"

definition get_line_rate :: "app \<Rightarrow> error + number option" where
  "get_line_rate a =
     bnd (frame_data a ''SI.hRoiManager.linePeriod'') (\<lambda>line_period.
       case line_period of
         None \<Rightarrow> Inr None
       | Some p \<Rightarrow> bnd (py_truediv (Some (PyInt 1)) (Some p)) (\<lambda>v. Inr (Some v)))"

definition get_number_of_rows :: "app \<Rightarrow> error + number option" where
  "get_number_of_rows a = frame_data a ''SI.hRoiManager.linesPerFrame''"

definition get_number_of_columns :: "app \<Rightarrow> error + number option" where
  "get_number_of_columns a = frame_data a ''SI.hRoiManager.pixelsPerLine''"

definition get_zoom_factor :: "app \<Rightarrow> error + number option" where
  "get_zoom_factor a = frame_data a ''SI.hRoiManager.scanZoomFactor''"

definition get_fov :: "library \<Rightarrow> world \<Rightarrow> app \<Rightarrow> world \<times> number option" where
  "get_fov lib w a =
     (case int_of_str lib (fov_input a) of
        Some n \<Rightarrow> (w, Some (PyInt n))
      | None \<Rightarrow> (print ''Invalid input! FOV must be an integer.'' w, None))"

text \<open>
  \<^verbatim>\<open>count / (get_fov() * get_zoom_factor())\<close> inside \<^verbatim>\<open>try ... except TypeError: pass\<close>: the
  operands are evaluated from left to right, a TypeError gives \<^verbatim>\<open>None\<close>, any other
  exception goes on to the caller.
\<close>

definition pixel_to_micron ::
  "(app \<Rightarrow> error + number option) \<Rightarrow> library \<Rightarrow> world \<Rightarrow> app \<Rightarrow> world \<times> (error + number option)" where
  "pixel_to_micron count lib w a =
     (case count a of
        Inl e \<Rightarrow> (w, Inl e)
      | Inr n \<Rightarrow>
          (case get_fov lib w a of (w', fov) \<Rightarrow>
             (case get_zoom_factor a of
                Inl e \<Rightarrow> (w', Inl e)
              | Inr zoom \<Rightarrow>
                  (case bnd (py_mul fov zoom) (\<lambda>d. py_truediv n (Some d)) of
                     Inl (TypeError m) \<Rightarrow> (w', Inr None)
                   | Inl e \<Rightarrow> (w', Inl e)
                   | Inr v \<Rightarrow> (w', Inr (Some v))))))"

definition calc_x_pixel_to_micron :: "library \<Rightarrow> world \<Rightarrow> app \<Rightarrow> world \<times> (error + number option)" where
  "calc_x_pixel_to_micron = pixel_to_micron get_number_of_columns"

definition calc_y_pixel_to_micron :: "library \<Rightarrow> world \<Rightarrow> app \<Rightarrow> world \<times> (error + number option)" where
  "calc_y_pixel_to_micron = pixel_to_micron get_number_of_rows"

definition PARAM_GETTERS ::
  "(string \<times> (library \<Rightarrow> world \<Rightarrow> app \<Rightarrow> world \<times> (error + number option))) list" where
  "PARAM_GETTERS =
     [(''zoom_factor'', \<lambda>lib w a. (w, get_zoom_factor a)),
      (''n_rows'', \<lambda>lib w a. (w, get_number_of_rows a)),
      (''n_columns'', \<lambda>lib w a. (w, get_number_of_columns a)),
      (''frame_rate'', \<lambda>lib w a. (w, get_frame_rate a)),
      (''line_rate'', \<lambda>lib w a. (w, get_line_rate a)),
      (''x_pixel_to_micron'', calc_x_pixel_to_micron),
      (''y_pixel_to_micron'', calc_y_pixel_to_micron)]"

text \<open>
  \<^verbatim>\<open>get_string\<close>: the \<^verbatim>\<open>try\<close> block holds both the lookup of the getter and its call, so
  a KeyError of either is caught.
\<close>

definition get_string :: "library \<Rightarrow> world \<Rightarrow> app \<Rightarrow> string \<Rightarrow> world \<times> (error + string)" where
  "get_string lib w a param =
     (case map_of PARAM_GETTERS param of
        None \<Rightarrow> (w, Inr ''INVALID'')
      | Some getter \<Rightarrow>
          (case getter lib w a of
             (w', Inl (KeyError k)) \<Rightarrow> (w', Inr ''INVALID'')
           | (w', Inl e) \<Rightarrow> (w', Inl e)
           | (w', Inr None) \<Rightarrow> (w', Inr ''---'')
           | (w', Inr (Some v)) \<Rightarrow>
               if truthy (Some v) then (w', Inr (str_of lib v)) else (w', Inr ''---'')))"

definition example_library :: library where
  "example_library =
     \<lparr>int_of_str = (\<lambda>s. if s = ''870'' then Some 870 else None),
      float_of_str = (\<lambda>s. if s = ''2.0'' then Some (Fl 2) else if s = ''30.0'' then Some (Fl 30) else None),
      str_of = (\<lambda>n. if n = PyInt 512 then ''512'' else ''?''),
      loc_assign_tuple = (\<lambda>old dims arr. case arr of Some new \<Rightarrow> Inr new
                                            | None \<Rightarrow> Inl (TypeError ''not an array'')),
      concat_error = (\<lambda>d e. None)\<rparr>"

section \<open>Saving\<close>

text \<open>
  A value of the dictionary that \<^verbatim>\<open>create_data_dict\<close> builds: a tuple \<^verbatim>\<open>(dims, array)\<close>,
  whose array is \<^verbatim>\<open>None\<close> when there is no projection, or a number.
\<close>

datatype data_value = Var "string list" "ndarray option" | Num number

type_synonym data_vars = "(string \<times> data_value) list"

definition py_float :: "library \<Rightarrow> string \<Rightarrow> error + pyfloat" where
  "py_float lib s =
     (case float_of_str lib s of
        None \<Rightarrow> Inl (ValueError ''could not convert string to float'')
      | Some f \<Rightarrow> Inr f)"

definition create_data_dict :: "library \<Rightarrow> app \<Rightarrow> error + data_vars" where
  "create_data_dict lib a =
     bnd (calculate_2d_projection a) (\<lambda>projection.
     bnd (py_float lib (line_rate_input a)) (\<lambda>line_rate.
     bnd (py_float lib (frame_rate_input a)) (\<lambda>frame_rate.
     bnd (get_roi_data_by_index (rois a)) (\<lambda>roi_data.
     bnd (get_vector_data_by_index (vectors a)) (\<lambda>vector_data.
       Inr [(''2d_projection'', Var [''x'', ''y''] (map_option of_pixels projection)),
            (''line_rate'', Num (PyFloat line_rate)),
            (''frame_rate'', Num (PyFloat frame_rate)),
            (''roi_data'', Var [''roi_num'', ''roi_loc''] (Some (of_table roi_data))),
            (''vector_data'', Var [''vector_num'', ''vector_loc''] (Some (of_table vector_data))),
            (''corr_calc_state'', Num (PyInt 0)),
            (''fitting_state'', Num (PyInt 0))])))))"

record coords =
  coord_path :: "string option"
  pix_x :: "nat list"
  pix_y :: "nat list"
  time :: "nat list"
  roi_num :: "nat list"
  roi_loc :: "string list"
  vector_num :: "nat list"
  vector_loc :: "string list"

text \<open>
  \<^verbatim>\<open>image.shape\<close> of a stack. With nested lists the sizes of the later axes of a stack
  without frames, or of frames without rows, are not recorded and read as 0.
\<close>

definition shape :: "int list list list \<Rightarrow> nat \<times> nat \<times> nat" where
  "shape fs =
     (length fs,
      (case fs of [] \<Rightarrow> 0 | f # rest \<Rightarrow> length f),
      (case fs of (r # rows) # rest \<Rightarrow> length r | _ \<Rightarrow> 0))"

text \<open>\<^verbatim>\<open>image.shape[2]\<close> is read first and raises IndexError for a single frame.\<close>

definition create_coords_dict :: "app \<Rightarrow> string option \<Rightarrow> error + coords" where
  "create_coords_dict a path =
     bnd (get_current_image a) (\<lambda>image.
       case image of
         Frame f \<Rightarrow> Inl (IndexError ''tuple index out of range'')
       | Stack fs \<Rightarrow>
           (case shape fs of (t, h, w) \<Rightarrow>
              Inr \<lparr>coord_path = path, pix_x = [0..<w], pix_y = [0..<h], time = [0..<t],
                   roi_num = [0..<50], roi_loc = [''x'', ''y'', ''width'', ''height''],
                   vector_num = [0..<50],
                   vector_loc = [''x_start'', ''x_end'', ''y_start'', ''y_end'']\<rparr>))"

subsection \<open>The dataset operations\<close>

fun ndim :: "ndarray \<Rightarrow> nat" where
  "ndim (Item n) = 0"
| "ndim (Axis []) = 1"
| "ndim (Axis (a # rest)) = Suc (ndim a)"

text \<open>
  A dictionary value as a variable of a dataset: a number is a 0-dimensional array; a tuple
  must name as many dimensions as its array has, and \<^verbatim>\<open>None\<close> has none.
\<close>

definition as_variable :: "data_value \<Rightarrow> error + ndarray" where
  "as_variable v =
     (case v of
        Num n \<Rightarrow> Inr (Item n)
      | Var dims None \<Rightarrow> Inl (ValueError ''dimensions must have the same length as ndim'')
      | Var dims (Some arr) \<Rightarrow>
          if length dims = ndim arr then Inr arr
          else Inl (ValueError ''dimensions must have the same length as ndim''))"

fun as_variables :: "data_vars \<Rightarrow> error + variables" where
  "as_variables [] = Inr []"
| "as_variables ((key, value) # rest) =
     bnd (as_variable value) (\<lambda>arr.
     bnd (as_variables rest) (\<lambda>vs. Inr ((key, arr) # vs)))"

text \<open>\<^verbatim>\<open>xr.Dataset(data_vars, coords)\<close>: one record under the scalar path of the coordinates.\<close>

definition xr_Dataset :: "data_vars \<Rightarrow> coords \<Rightarrow> error + dataset" where
  "xr_Dataset data_vars c =
     bnd (as_variables data_vars) (\<lambda>vs. Inr (Scalar_path (coord_path c) vs))"

text \<open>\<^verbatim>\<open>db['path'].values\<close>, and whether \<^verbatim>\<open>db['path'].values.tolist()\<close> is a string.\<close>

definition path_values :: "dataset \<Rightarrow> error + string option list" where
  "path_values db =
     (case db of
        Empty_dataset \<Rightarrow> Inl (KeyError ''path'')
      | Scalar_path p vs \<Rightarrow> Inr [p]
      | Path_axis es \<Rightarrow> Inr (map fst es))"

definition path_is_str :: "dataset \<Rightarrow> bool" where
  "path_is_str db = (case db of Scalar_path (Some p) vs \<Rightarrow> True | _ \<Rightarrow> False)"

definition entries :: "dataset \<Rightarrow> (string option \<times> variables) list" where
  "entries db =
     (case db of Empty_dataset \<Rightarrow> [] | Scalar_path p vs \<Rightarrow> [(p, vs)] | Path_axis es \<Rightarrow> es)"

text \<open>
  \<^verbatim>\<open>xr.concat([db, ds], dim='path')\<close>: when the library can align the two datasets, the
  records of the second follow those of the first along the path dimension.
\<close>

definition xr_concat :: "library \<Rightarrow> dataset \<Rightarrow> dataset \<Rightarrow> error + dataset" where
  "xr_concat lib db ds =
     (case concat_error lib db ds of
        Some e \<Rightarrow> Inl e
      | None \<Rightarrow> Inr (Path_axis (entries db @ entries ds)))"

text \<open>
  The test \<^verbatim>\<open>stored.values.tolist() != value\<close>. The left side is a number for a
  0-dimensional array and a list otherwise. A list or a number is never equal to a tuple,
  and a list is never equal to a number; two numbers are compared by value, not-a-number
  being different from everything.
\<close>

definition number_ne :: "number \<Rightarrow> number \<Rightarrow> bool" where
  "number_ne m n = (case (to_float m, to_float n) of (Fl r, Fl s) \<Rightarrow> r \<noteq> s | _ \<Rightarrow> True)"

fun differs :: "ndarray \<Rightarrow> data_value \<Rightarrow> bool" where
  "differs stored (Var dims arr) = True"
| "differs (Axis xs) (Num n) = True"
| "differs (Item m) (Num n) = number_ne m n"

text \<open>
  \<^verbatim>\<open>db[key].loc[{'path': path}]\<close> read and assigned. The labels of a path dimension are
  taken to be distinct, as they are in every dataset that \<^verbatim>\<open>save\<close> writes. Assigning a
  number sets every element of the stored array; conversions between integer and float
  arrays are left out.
\<close>

definition loc_get :: "dataset \<Rightarrow> string \<Rightarrow> string option \<Rightarrow> error + ndarray" where
  "loc_get db key path =
     (case db of
        Path_axis es \<Rightarrow>
          (case map_of es path of
             None \<Rightarrow> Inl (KeyError ''path'')
           | Some vs \<Rightarrow> dict_get vs key)
      | Scalar_path p vs \<Rightarrow>
          bnd (dict_get vs key) (\<lambda>arr. Inl (ValueError ''dimension path does not exist''))
      | Empty_dataset \<Rightarrow> Inl (KeyError key))"

fun fill :: "number \<Rightarrow> ndarray \<Rightarrow> ndarray" where
  "fill n (Item m) = Item n"
| "fill n (Axis xs) = Axis (map (fill n) xs)"

definition loc_set :: "library \<Rightarrow> dataset \<Rightarrow> string \<Rightarrow> string option \<Rightarrow> data_value \<Rightarrow> error + dataset" where
  "loc_set lib db key path value =
     bnd (loc_get db key path) (\<lambda>stored.
     bnd (case value of
            Num n \<Rightarrow> Inr (fill n stored)
          | Var dims arr \<Rightarrow> loc_assign_tuple lib stored dims arr) (\<lambda>new.
       case db of
         Path_axis es \<Rightarrow>
           Inr (Path_axis (map (\<lambda>(p, vs). if p = path then (p, AList.update key new vs) else (p, vs)) es))
       | _ \<Rightarrow> Inr db))"

text \<open>\<^verbatim>\<open>db[key]\<close> read and assigned in a dataset with a scalar path.\<close>

definition var_get :: "dataset \<Rightarrow> string \<Rightarrow> error + ndarray" where
  "var_get db key =
     (case db of Scalar_path p vs \<Rightarrow> dict_get vs key | _ \<Rightarrow> Inl (KeyError key))"

definition var_set :: "dataset \<Rightarrow> string \<Rightarrow> data_value \<Rightarrow> error + dataset" where
  "var_set db key value =
     bnd (as_variable value) (\<lambda>arr.
       case db of
         Scalar_path p vs \<Rightarrow> Inr (Scalar_path p (AList.update key arr vs))
       | _ \<Rightarrow> Inr db)"

subsection \<open>The save routine\<close>

text \<open>
  The loop over \<^verbatim>\<open>data_vars.items()\<close> for a path that is already in the dataset. Each
  assignment that is carried out is recorded as an event, whether or not it raises.
\<close>

fun update_fields ::
  "library \<Rightarrow> string option \<Rightarrow> data_vars \<Rightarrow> dataset \<Rightarrow> world \<Rightarrow> world \<times> (error + dataset)" where
  "update_fields lib path [] db w = (w, Inr db)"
| "update_fields lib path ((key, value) # rest) db w =
     (if \<not> path_is_str db then
        (case loc_get db key path of
           Inl e \<Rightarrow> (w, Inl e)
         | Inr stored \<Rightarrow>
             if differs stored value then
               (case loc_set lib db key path value of
                  Inl e \<Rightarrow> (emit (Assign key) w, Inl e)
                | Inr db' \<Rightarrow> update_fields lib path rest db' (emit (Assign key) w))
             else update_fields lib path rest db w)
      else
        (case var_get db key of
           Inl e \<Rightarrow> (w, Inl e)
         | Inr stored \<Rightarrow>
             if differs stored value then
               (case var_set db key value of
                  Inl e \<Rightarrow> (emit (Assign key) w, Inl e)
                | Inr db' \<Rightarrow> update_fields lib path rest db' (emit (Assign key) w))
             else update_fields lib path rest db w))"

text \<open>The branch for a path that is not yet in the dataset.\<close>

definition append_record ::
  "library \<Rightarrow> app \<Rightarrow> string option \<Rightarrow> data_vars \<Rightarrow> dataset \<Rightarrow> world \<Rightarrow> world \<times> (error + dataset)" where
  "append_record lib a path data_vars db w =
     (case bnd (create_coords_dict a path) (\<lambda>coords.
           bnd (xr_Dataset data_vars coords) (\<lambda>ds. xr_concat lib db ds)) of
        Inl e \<Rightarrow> (w, Inl e)
      | Inr db' \<Rightarrow> (emit (Concat path) w, Inr db'))"

definition isfile :: "world \<Rightarrow> string \<Rightarrow> bool" where
  "isfile w p = (files w p \<noteq> None)"

definition os_remove :: "string \<Rightarrow> world \<Rightarrow> world \<times> (error + unit)" where
  "os_remove p w =
     (case files w p of
        None \<Rightarrow> (w, Inl (FileNotFoundError p))
      | Some c \<Rightarrow> (emit (Remove p) (w\<lparr>files := (files w)(p := None)\<rparr>), Inr ()))"

text \<open>
  \<^verbatim>\<open>db.to_netcdf(path, mode='w')\<close>: either the write meets an exception and no dataset file
  appears, or the file holds the dataset.
\<close>

definition to_netcdf :: "dataset \<Rightarrow> string \<Rightarrow> world \<Rightarrow> world \<times> (error + unit)" where
  "to_netcdf db p w =
     (case write_error w db of
        Some e \<Rightarrow> (w, Inl e)
      | None \<Rightarrow> (emit (Write p db) (w\<lparr>files := (files w)(p \<mapsto> Dataset_file db)\<rparr>), Inr ()))"

text \<open>\<^verbatim>\<open>os.path.isfile(None)\<close> raises TypeError.\<close>

definition save :: "library \<Rightarrow> world \<Rightarrow> app \<Rightarrow> world \<times> (error + unit)" where
  "save lib w a =
     (case get_full_path w a (image_select a) of (w1, path) \<Rightarrow>
        (case create_data_dict lib a of
           Inl e \<Rightarrow> (w1, Inl e)
         | Inr data_vars \<Rightarrow>
             (case get_db_path w1 a of
                None \<Rightarrow> (w1, Inl (TypeError ''stat: path should be string, not NoneType''))
              | Some db_path \<Rightarrow>
                  if isfile w1 db_path then
                    (case open_dataset w1 (Some db_path) of
                       Inl e \<Rightarrow> (w1, Inl e)
                     | Inr db \<Rightarrow>
                         (case path_values db of
                            Inl e \<Rightarrow> (w1, Inl e)
                          | Inr paths \<Rightarrow>
                              (case (if path \<in> set paths
                                     then update_fields lib path data_vars db
                                            (print ''trying to update DB for existing path'' w1)
                                     else append_record lib a path data_vars db
                                            (print ''trying to update DB with new path'' w1)) of
                                 (w2, Inl e) \<Rightarrow> (w2, Inl e)
                               | (w2, Inr db') \<Rightarrow>
                                   (case os_remove db_path w2 of
                                      (w3, Inl e) \<Rightarrow> (w3, Inl e)
                                    | (w3, Inr u) \<Rightarrow> to_netcdf db' db_path w3))))
                  else
                    (case bnd (create_coords_dict a path) (\<lambda>coords. xr_Dataset data_vars coords) of
                       Inl e \<Rightarrow> (w1, Inl e)
                     | Inr db \<Rightarrow> to_netcdf db db_path w1))))"

text \<open>The events that assign to a field of the dataset in memory or append a record to it.\<close>

definition field_event :: "event \<Rightarrow> bool" where
  "field_event ev = (case ev of Assign k \<Rightarrow> True | Concat p \<Rightarrow> True | _ \<Rightarrow> False)"

subsection \<open>What the update loop reads and writes\<close>

text \<open>
  The stored value that the loop compares for one key, and the assignment it makes, in
  either form of the dataset; \<open>field_differs\<close> is the outcome of the comparison for a key of
  the data dictionary.
\<close>

definition stored_value :: "dataset \<Rightarrow> string option \<Rightarrow> string \<Rightarrow> error + ndarray" where
  "stored_value db path key = (if path_is_str db then var_get db key else loc_get db key path)"

definition assign_field ::
  "library \<Rightarrow> dataset \<Rightarrow> string \<Rightarrow> string option \<Rightarrow> data_value \<Rightarrow> error + dataset" where
  "assign_field lib db key path value =
     (if path_is_str db then var_set db key value else loc_set lib db key path value)"

definition field_differs :: "dataset \<Rightarrow> string option \<Rightarrow> data_vars \<Rightarrow> string \<Rightarrow> bool" where
  "field_differs db path dv key =
     (case (stored_value db path key, map_of dv key) of
        (Inr stored, Some value) \<Rightarrow> differs stored value
      | _ \<Rightarrow> False)"

text \<open>
  The data dictionary of the example, the record that saving it stores, and a world whose
  dataset file holds one record of another recording while every write fails.
\<close>

definition example_data_vars :: data_vars where
  "example_data_vars =
     [(''2d_projection'', Var [''x'', ''y''] (Some (of_pixels [[5, 2], [3, 9]]))),
      (''line_rate'', Num (PyFloat (Fl 2))),
      (''frame_rate'', Num (PyFloat (Fl 30))),
      (''roi_data'', Var [''roi_num'', ''roi_loc'']
         (Some (of_table ((np_full 50 4 NaN)[0 := [Fl 1, Fl 1, Fl 2, Fl 2]])))),
      (''vector_data'', Var [''vector_num'', ''vector_loc'']
         (Some (of_table ((np_full 50 4 NaN)[0 := [Fl 0, Fl 1, Fl 0, Fl 1]])))),
      (''corr_calc_state'', Num (PyInt 0)),
      (''fitting_state'', Num (PyInt 0))]"

definition example_record :: variables where
  "example_record =
     [(''2d_projection'', of_pixels [[5, 2], [3, 9]]),
      (''line_rate'', Item (PyFloat (Fl 2))),
      (''frame_rate'', Item (PyFloat (Fl 30))),
      (''roi_data'', of_table ((np_full 50 4 NaN)[0 := [Fl 1, Fl 1, Fl 2, Fl 2]])),
      (''vector_data'', of_table ((np_full 50 4 NaN)[0 := [Fl 0, Fl 1, Fl 0, Fl 1]])),
      (''corr_calc_state'', Item (PyInt 0)),
      (''fitting_state'', Item (PyInt 0))]"

definition stored_world :: "dataset \<Rightarrow> world" where
  "stored_world db = example_world\<lparr>files := [''/data/db.nc'' \<mapsto> Dataset_file db]\<rparr>"

definition full_disk_world :: world where
  "full_disk_world =
     (stored_world (Scalar_path (Some ''/data/b.tif'') []))
       \<lparr>write_error := (\<lambda>d. Some (OSError ''No space left on device''))\<rparr>"

text \<open>
  A world whose dataset file holds exactly the record that saving the example stores, as
  it is after the example has been saved once.
\<close>

definition saved_world :: world where
  "saved_world = stored_world (Scalar_path (Some ''/data/a.tif'') example_record)"




section \<open>Auxiliary facts\<close>

lemma bnd_Inr [simp]: "bnd (Inr v) f = f v"
  by (simp add: bnd_def)

lemma bnd_Inl [simp]: "bnd (Inl e) f = Inl e"
  by (simp add: bnd_def)

lemma py_index_nat: "i < length xs \<Longrightarrow> py_index xs (int i) = Inr (xs ! i)"
  by (simp add: py_index_def)

lemma py_index_error: "py_index xs i = Inl e \<Longrightarrow> e = IndexError ''list index out of range''"
  by (auto simp: py_index_def split: if_splits)

lemma assign_rows_append:
  "assign_rows p (xs @ ys) t = bnd (assign_rows p xs t) (\<lambda>t'. assign_rows p ys t')"
proof (induction xs arbitrary: t)
  case Nil show ?case by simp
next
  case (Cons i xs)
  show ?case
  proof (cases "p (int i)")
    case (Inl e) then show ?thesis by simp
  next
    case (Inr row)
    show ?thesis
    proof (cases "set_row t i row")
      case (Inl e) with Inr show ?thesis by simp
    next
      case (Inr t') with \<open>p (int i) = Inr row\<close> Cons.IH show ?thesis by simp
    qed
  qed
qed

lemma assign_rows_upt:
  assumes "\<forall>i<n. p (int i) = Inr (r i)" and "n \<le> length t"
  shows "assign_rows p [0..<n] t = Inr (map r [0..<n] @ drop n t)"
  using assms
proof (induction n)
  case 0 show ?case by simp
next
  case (Suc n)
  have ih: "assign_rows p [0..<n] t = Inr (map r [0..<n] @ drop n t)"
    using Suc by simp
  have pn: "p (int n) = Inr (r n)" using Suc.prems by simp
  have len: "n < length (map r [0..<n] @ drop n t)" using Suc.prems by simp
  have dr: "drop n t = t ! n # drop (Suc n) t"
    using Suc.prems by (simp add: Cons_nth_drop_Suc)
  have upd: "(map r [0..<n] @ drop n t)[n := r n] = map r [0..<Suc n] @ drop (Suc n) t"
    by (simp add: list_update_append dr)
  have "assign_rows p [0..<Suc n] t = bnd (assign_rows p [0..<n] t) (\<lambda>t'. assign_rows p [n] t')"
    by (simp add: assign_rows_append)
  also have "\<dots> = assign_rows p [n] (map r [0..<n] @ drop n t)"
    by (simp only: ih bnd_Inr)
  also have "\<dots> = Inr ((map r [0..<n] @ drop n t)[n := r n])"
    using pn len by (simp add: set_row_def)
  finally show ?case by (simp only: upd)
qed

lemma get_roi_params_ok:
  assumes "roi_columns_ok src" and "i < length (roi_x src)"
  shows "get_roi_params src (int i) =
           Inr [roi_x src ! i, roi_y src ! i, roi_width src ! i, roi_height src ! i]"
  using assms by (simp add: get_roi_params_def roi_columns_ok_def py_index_nat)

lemma get_vector_params_ok:
  assumes "vector_columns_ok src" and "i < length (vec_xs src)"
  shows "get_vector_params src (int i) =
           Inr [vec_xs src ! i ! 0, vec_xs src ! i ! 1, vec_ys src ! i ! 0, vec_ys src ! i ! 1]"
proof -
  have ly: "i < length (vec_ys src)" using assms by (simp add: vector_columns_ok_def)
  have "2 \<le> length (vec_xs src ! i)" "2 \<le> length (vec_ys src ! i)"
    using assms ly by (simp_all add: vector_columns_ok_def)
  then have "py_index (vec_xs src ! i) 0 = Inr (vec_xs src ! i ! 0)"
    "py_index (vec_xs src ! i) 1 = Inr (vec_xs src ! i ! 1)"
    "py_index (vec_ys src ! i) 0 = Inr (vec_ys src ! i ! 0)"
    "py_index (vec_ys src ! i) 1 = Inr (vec_ys src ! i ! 1)"
    by (auto simp: py_index_def)
  then show ?thesis
    using assms(2) ly by (simp add: get_vector_params_def py_index_nat)
qed

lemma filled_table:
  assumes "\<forall>i<n. p (int i) = Inr (r i)" and "n \<le> 50" and "\<forall>i<n. length (r i) = 4"
  shows "\<exists>t. assign_rows p [0..<n] (np_full 50 4 NaN) = Inr t \<and> length t = 50
           \<and> (\<forall>row \<in> set t. length row = 4)
           \<and> (\<forall>i<n. t ! i = r i)
           \<and> (\<forall>i. n \<le> i \<and> i < 50 \<longrightarrow> t ! i = [NaN, NaN, NaN, NaN])"
proof -
  let ?t = "map r [0..<n] @ drop n (np_full 50 4 NaN)"
  have four: "replicate 4 NaN = [NaN, NaN, NaN, NaN]" by (simp add: numeral_eq_Suc)
  have eq: "assign_rows p [0..<n] (np_full 50 4 NaN) = Inr ?t"
    using assms(1,2) by (intro assign_rows_upt) (simp_all add: np_full_def)
  have len: "length ?t = 50" using assms(2) by (simp add: np_full_def)
  have rows: "\<forall>row \<in> set ?t. length row = 4"
    using assms(3) by (auto simp: np_full_def dest: in_set_dropD)
  have used: "\<forall>i<n. ?t ! i = r i" by (simp add: nth_append)
  have unused: "\<forall>i. n \<le> i \<and> i < 50 \<longrightarrow> ?t ! i = [NaN, NaN, NaN, NaN]"
    using assms(2) by (auto simp: nth_append np_full_def four)
  show ?thesis using eq len rows used unused by blast
qed

section \<open>The coordinate tables have 50 rows, padded with not-a-number\<close>

text \<open>
  Claim C3. For a selection of at most 50 ROIs whose columns are well formed,
  \<^verbatim>\<open>get_roi_data_by_index\<close> returns a table of 50 rows of 4 entries: row \<open>i\<close> below the
  number of ROIs is \<open>(x, y, width, height)\<close> of ROI \<open>i\<close>, in the order of the selection,
  and every later row holds not-a-number four times. The same holds of
  \<^verbatim>\<open>get_vector_data_by_index\<close> with \<open>(x_start, x_end, y_start, y_end)\<close> of each vector.
\<close>

theorem coordinate_tables:
  "(roi_columns_ok rs \<and> length (roi_x rs) \<le> 50 \<longrightarrow>
      (\<exists>t. get_roi_data_by_index rs = Inr t \<and> length t = 50
         \<and> (\<forall>row \<in> set t. length row = 4)
         \<and> (\<forall>i < length (roi_x rs).
               t ! i = [roi_x rs ! i, roi_y rs ! i, roi_width rs ! i, roi_height rs ! i])
         \<and> (\<forall>i. length (roi_x rs) \<le> i \<and> i < 50 \<longrightarrow> t ! i = [NaN, NaN, NaN, NaN])))
   \<and> (vector_columns_ok vs \<and> length (vec_xs vs) \<le> 50 \<longrightarrow>
      (\<exists>t. get_vector_data_by_index vs = Inr t \<and> length t = 50
         \<and> (\<forall>row \<in> set t. length row = 4)
         \<and> (\<forall>i < length (vec_xs vs).
               t ! i = [vec_xs vs ! i ! 0, vec_xs vs ! i ! 1, vec_ys vs ! i ! 0, vec_ys vs ! i ! 1])
         \<and> (\<forall>i. length (vec_xs vs) \<le> i \<and> i < 50 \<longrightarrow> t ! i = [NaN, NaN, NaN, NaN])))"
proof (intro conjI impI)
  assume h: "roi_columns_ok rs \<and> length (roi_x rs) \<le> 50"
  let ?r = "\<lambda>i. [roi_x rs ! i, roi_y rs ! i, roi_width rs ! i, roi_height rs ! i]"
  have "\<forall>i<length (roi_x rs). get_roi_params rs (int i) = Inr (?r i)"
    using h by (simp add: get_roi_params_ok)
  from filled_table [OF this] h
  show "\<exists>t. get_roi_data_by_index rs = Inr t \<and> length t = 50
         \<and> (\<forall>row \<in> set t. length row = 4)
         \<and> (\<forall>i < length (roi_x rs).
               t ! i = [roi_x rs ! i, roi_y rs ! i, roi_width rs ! i, roi_height rs ! i])
         \<and> (\<forall>i. length (roi_x rs) \<le> i \<and> i < 50 \<longrightarrow> t ! i = [NaN, NaN, NaN, NaN])"
    unfolding get_roi_data_by_index_def by simp
next
  assume h: "vector_columns_ok vs \<and> length (vec_xs vs) \<le> 50"
  let ?r = "\<lambda>i. [vec_xs vs ! i ! 0, vec_xs vs ! i ! 1, vec_ys vs ! i ! 0, vec_ys vs ! i ! 1]"
  have "\<forall>i<length (vec_xs vs). get_vector_params vs (int i) = Inr (?r i)"
    using h by (simp add: get_vector_params_ok)
  from filled_table [OF this] h
  show "\<exists>t. get_vector_data_by_index vs = Inr t \<and> length t = 50
         \<and> (\<forall>row \<in> set t. length row = 4)
         \<and> (\<forall>i < length (vec_xs vs).
               t ! i = [vec_xs vs ! i ! 0, vec_xs vs ! i ! 1, vec_ys vs ! i ! 0, vec_ys vs ! i ! 1])
         \<and> (\<forall>i. length (vec_xs vs) \<le> i \<and> i < 50 \<longrightarrow> t ! i = [NaN, NaN, NaN, NaN])"
    unfolding get_vector_data_by_index_def by simp
qed

text \<open>Two ROIs and one vector: rows 0 and 1, respectively row 0, are filled.\<close>

theorem coordinate_tables_witness:
  "roi_columns_ok \<lparr>roi_x = [Fl 10, Fl 30], roi_y = [Fl 20, Fl 40], roi_width = [Fl 4, Fl 6],
                   roi_height = [Fl 5, Fl 7]\<rparr>
   \<and> vector_columns_ok \<lparr>vec_xs = [[Fl 1, Fl 2]], vec_ys = [[Fl 3, Fl 4]]\<rparr>
   \<and> (\<exists>t. get_roi_data_by_index \<lparr>roi_x = [Fl 10, Fl 30], roi_y = [Fl 20, Fl 40],
                                    roi_width = [Fl 4, Fl 6], roi_height = [Fl 5, Fl 7]\<rparr> = Inr t
          \<and> length t = 50 \<and> t ! 0 = [Fl 10, Fl 20, Fl 4, Fl 5] \<and> t ! 1 = [Fl 30, Fl 40, Fl 6, Fl 7]
          \<and> t ! 2 = [NaN, NaN, NaN, NaN] \<and> t ! 49 = [NaN, NaN, NaN, NaN])
   \<and> (\<exists>t. get_vector_data_by_index \<lparr>vec_xs = [[Fl 1, Fl 2]], vec_ys = [[Fl 3, Fl 4]]\<rparr> = Inr t
          \<and> length t = 50 \<and> t ! 0 = [Fl 1, Fl 2, Fl 3, Fl 4] \<and> t ! 1 = [NaN, NaN, NaN, NaN])"
proof -
  let ?R = "\<lparr>roi_x = [Fl 10, Fl 30], roi_y = [Fl 20, Fl 40], roi_width = [Fl 4, Fl 6],
             roi_height = [Fl 5, Fl 7]\<rparr>"
  let ?V = "\<lparr>vec_xs = [[Fl 1, Fl 2]], vec_ys = [[Fl 3, Fl 4]]\<rparr>"
  have h1: "roi_columns_ok ?R \<and> length (roi_x ?R) \<le> 50" by (simp add: roi_columns_ok_def)
  have h2: "vector_columns_ok ?V \<and> length (vec_xs ?V) \<le> 50" by (simp add: vector_columns_ok_def)
  from coordinate_tables [of ?R ?V] h1 obtain t where
    t: "get_roi_data_by_index ?R = Inr t" "length t = 50"
       "\<forall>i < length (roi_x ?R). t ! i = [roi_x ?R ! i, roi_y ?R ! i, roi_width ?R ! i, roi_height ?R ! i]"
       "\<forall>i. length (roi_x ?R) \<le> i \<and> i < 50 \<longrightarrow> t ! i = [NaN, NaN, NaN, NaN]"
    by blast
  from coordinate_tables [of ?R ?V] h2 obtain u where
    u: "get_vector_data_by_index ?V = Inr u" "length u = 50"
       "\<forall>i < length (vec_xs ?V). u ! i = [vec_xs ?V ! i ! 0, vec_xs ?V ! i ! 1, vec_ys ?V ! i ! 0, vec_ys ?V ! i ! 1]"
       "\<forall>i. length (vec_xs ?V) \<le> i \<and> i < 50 \<longrightarrow> u ! i = [NaN, NaN, NaN, NaN]"
    by blast
  have "t ! 0 = [Fl 10, Fl 20, Fl 4, Fl 5]" "t ! 1 = [Fl 30, Fl 40, Fl 6, Fl 7]"
    using t(3) by simp_all
  moreover have "t ! 2 = [NaN, NaN, NaN, NaN]" "t ! 49 = [NaN, NaN, NaN, NaN]"
    using t(4) by simp_all
  moreover have "u ! 0 = [Fl 1, Fl 2, Fl 3, Fl 4]" using u(3) by simp
  moreover have "u ! 1 = [NaN, NaN, NaN, NaN]" using u(4) by simp
  ultimately show ?thesis using h1 h2 t(1,2) u(1,2) by simp
qed

section \<open>The capacity of 50 rows is not checked\<close>

lemma get_roi_params_error:
  "get_roi_params src i = Inl e \<Longrightarrow> e = IndexError ''list index out of range''"
  by (auto simp: get_roi_params_def bnd_def split: sum.splits dest: py_index_error)

lemma get_vector_params_error:
  "get_vector_params src i = Inl e \<Longrightarrow> e = IndexError ''list index out of range''"
  by (auto simp: get_vector_params_def bnd_def split: sum.splits dest: py_index_error)

lemma set_row_length: "set_row t i row = Inr t' \<Longrightarrow> length t' = length t"
  by (auto simp: set_row_def split: if_splits)

lemma assign_rows_in_range:
  assumes "\<forall>i \<in> set idxs. i < length t"
    and "\<forall>i e. p i = Inl e \<longrightarrow> e = IndexError ''list index out of range''"
  shows "assign_rows p idxs t \<noteq> Inl (IndexError ''index is out of bounds for axis 0'')"
  using assms(1)
proof (induction idxs arbitrary: t)
  case Nil show ?case by simp
next
  case (Cons i idxs)
  show ?case
  proof (cases "p (int i)")
    case (Inl e)
    then have "e = IndexError ''list index out of range''" using assms(2) by blast
    with Inl show ?thesis by simp
  next
    case (Inr row)
    have "i < length t" using Cons.prems by simp
    then have sr: "set_row t i row = Inr (t[i := row])" by (simp add: set_row_def)
    have "\<forall>j \<in> set idxs. j < length (t[i := row])" using Cons.prems by simp
    from Cons.IH [OF this] Inr sr show ?thesis by simp
  qed
qed

lemma overfull_table:
  assumes "\<forall>i<n. p (int i) = Inr (r i)" and "50 < n"
  shows "assign_rows p [0..<n] (np_full 50 4 NaN) = Inl (IndexError ''index is out of bounds for axis 0'')"
proof -
  have "[0..<50 + (n - 50)] = [0..<50] @ [50..<50 + (n - 50)]"
    by (rule upt_add_eq_append) simp
  moreover have "50 + (n - 50) = n" using assms(2) by simp
  ultimately have "[0..<n] = [0..<50] @ [50..<n]" by simp
  moreover have "[50..<n] = 50 # [Suc 50..<n]" using assms(2) by (rule upt_conv_Cons)
  ultimately have split: "[0..<n] = [0..<50] @ 50 # [Suc 50..<n]" by simp
  let ?T = "np_full 50 4 NaN"
  let ?t = "map r [0..<50] @ drop 50 ?T"
  have first: "assign_rows p [0..<50] ?T = Inr ?t"
    using assms by (intro assign_rows_upt) (simp_all add: np_full_def)
  have len: "length ?t = 50" by (simp add: np_full_def)
  have p50: "p (int 50) = Inr (r 50)" using assms(1) [rule_format, of 50] assms(2) by simp
  have "assign_rows p [0..<n] ?T = bnd (assign_rows p [0..<50] ?T) (\<lambda>t'. assign_rows p (50 # [Suc 50..<n]) t')"
    by (simp only: split assign_rows_append)
  also have "\<dots> = assign_rows p (50 # [Suc 50..<n]) ?t"
    by (simp only: first bnd_Inr)
  also have "\<dots> = bnd (set_row ?t 50 (r 50)) (\<lambda>t'. assign_rows p [Suc 50..<n] t')"
    by (simp only: assign_rows.simps p50 bnd_Inr)
  also have "\<dots> = Inl (IndexError ''index is out of bounds for axis 0'')"
    using len by (simp add: set_row_def)
  finally show ?thesis .
qed

text \<open>
  Claim C8. With more than 50 ROIs (well-formed columns), \<^verbatim>\<open>get_roi_data_by_index\<close>
  reaches row index 50 and raises the out-of-bounds IndexError of the array; with at most
  50 ROIs it never raises that error. The same holds of \<^verbatim>\<open>get_vector_data_by_index\<close>.
\<close>

theorem table_capacity_unchecked:
  "(roi_columns_ok rs \<and> 50 < length (roi_x rs) \<longrightarrow>
      get_roi_data_by_index rs = Inl (IndexError ''index is out of bounds for axis 0''))
   \<and> (length (roi_x rs) \<le> 50 \<longrightarrow>
      get_roi_data_by_index rs \<noteq> Inl (IndexError ''index is out of bounds for axis 0''))
   \<and> (vector_columns_ok vs \<and> 50 < length (vec_xs vs) \<longrightarrow>
      get_vector_data_by_index vs = Inl (IndexError ''index is out of bounds for axis 0''))
   \<and> (length (vec_xs vs) \<le> 50 \<longrightarrow>
      get_vector_data_by_index vs \<noteq> Inl (IndexError ''index is out of bounds for axis 0''))"
proof (intro conjI impI)
  assume h: "roi_columns_ok rs \<and> 50 < length (roi_x rs)"
  then have "\<forall>i<length (roi_x rs). get_roi_params rs (int i)
      = Inr [roi_x rs ! i, roi_y rs ! i, roi_width rs ! i, roi_height rs ! i]"
    by (simp add: get_roi_params_ok)
  from overfull_table [OF this] h
  show "get_roi_data_by_index rs = Inl (IndexError ''index is out of bounds for axis 0'')"
    by (simp add: get_roi_data_by_index_def)
next
  assume "length (roi_x rs) \<le> 50"
  then have "\<forall>i \<in> set [0..<length (roi_x rs)]. i < length (np_full 50 4 NaN)"
    by (simp add: np_full_def)
  from assign_rows_in_range [OF this]
  show "get_roi_data_by_index rs \<noteq> Inl (IndexError ''index is out of bounds for axis 0'')"
    unfolding get_roi_data_by_index_def using get_roi_params_error by blast
next
  assume h: "vector_columns_ok vs \<and> 50 < length (vec_xs vs)"
  then have "\<forall>i<length (vec_xs vs). get_vector_params vs (int i)
      = Inr [vec_xs vs ! i ! 0, vec_xs vs ! i ! 1, vec_ys vs ! i ! 0, vec_ys vs ! i ! 1]"
    by (simp add: get_vector_params_ok)
  from overfull_table [OF this] h
  show "get_vector_data_by_index vs = Inl (IndexError ''index is out of bounds for axis 0'')"
    by (simp add: get_vector_data_by_index_def)
next
  assume "length (vec_xs vs) \<le> 50"
  then have "\<forall>i \<in> set [0..<length (vec_xs vs)]. i < length (np_full 50 4 NaN)"
    by (simp add: np_full_def)
  from assign_rows_in_range [OF this]
  show "get_vector_data_by_index vs \<noteq> Inl (IndexError ''index is out of bounds for axis 0'')"
    unfolding get_vector_data_by_index_def using get_vector_params_error by blast
qed

text \<open>51 ROIs and 51 vectors overflow the tables; one of each does not.\<close>

theorem table_capacity_unchecked_witness:
  "roi_columns_ok \<lparr>roi_x = replicate 51 (Fl 1), roi_y = replicate 51 (Fl 1),
                    roi_width = replicate 51 (Fl 2), roi_height = replicate 51 (Fl 2)\<rparr>
   \<and> get_roi_data_by_index \<lparr>roi_x = replicate 51 (Fl 1), roi_y = replicate 51 (Fl 1),
                    roi_width = replicate 51 (Fl 2), roi_height = replicate 51 (Fl 2)\<rparr>
       = Inl (IndexError ''index is out of bounds for axis 0'')
   \<and> get_roi_data_by_index \<lparr>roi_x = [Fl 1], roi_y = [Fl 1], roi_width = [Fl 2], roi_height = [Fl 2]\<rparr>
       \<noteq> Inl (IndexError ''index is out of bounds for axis 0'')
   \<and> vector_columns_ok \<lparr>vec_xs = replicate 51 [Fl 1, Fl 2], vec_ys = replicate 51 [Fl 3, Fl 4]\<rparr>
   \<and> get_vector_data_by_index \<lparr>vec_xs = replicate 51 [Fl 1, Fl 2], vec_ys = replicate 51 [Fl 3, Fl 4]\<rparr>
       = Inl (IndexError ''index is out of bounds for axis 0'')
   \<and> get_vector_data_by_index \<lparr>vec_xs = [[Fl 1, Fl 2]], vec_ys = [[Fl 3, Fl 4]]\<rparr>
       \<noteq> Inl (IndexError ''index is out of bounds for axis 0'')"
proof -
  let ?R = "\<lparr>roi_x = replicate 51 (Fl 1), roi_y = replicate 51 (Fl 1),
             roi_width = replicate 51 (Fl 2), roi_height = replicate 51 (Fl 2)\<rparr>"
  let ?V = "\<lparr>vec_xs = replicate 51 [Fl 1, Fl 2], vec_ys = replicate 51 [Fl 3, Fl 4]\<rparr>"
  let ?r = "\<lparr>roi_x = [Fl 1], roi_y = [Fl 1], roi_width = [Fl 2], roi_height = [Fl 2]\<rparr>"
  let ?v = "\<lparr>vec_xs = [[Fl 1, Fl 2]], vec_ys = [[Fl 3, Fl 4]]\<rparr>"
  have h1: "roi_columns_ok ?R \<and> 50 < length (roi_x ?R)" by (simp add: roi_columns_ok_def)
  have h2: "vector_columns_ok ?V \<and> 50 < length (vec_xs ?V)" by (simp add: vector_columns_ok_def)
  have h3: "length (roi_x ?r) \<le> 50" by simp
  have h4: "length (vec_xs ?v) \<le> 50" by simp
  show ?thesis
    using table_capacity_unchecked [of ?R ?V] table_capacity_unchecked [of ?r ?v] h1 h2 h3 h4
    by blast
qed

section \<open>Missing data gives a sentinel\<close>

lemma filter_find:
  "filter P xs = [] \<longleftrightarrow> find P xs = None"
  "find P xs = Some x \<Longrightarrow> \<exists>rest. filter P xs = x # rest"
  by (induction xs) (auto split: if_splits)

lemma py_index_first: "py_index (x # xs) 0 = Inr x"
  by (simp add: py_index_def)

lemma py_index_empty: "py_index [] 0 = Inl (IndexError ''list index out of range'')"
  by (simp add: py_index_def)

text \<open>
  Claim C4. When no discovered path ends with the relative path, \<^verbatim>\<open>get_full_path\<close> adds
  its failure message to the console and returns \<^verbatim>\<open>None\<close>; it has no exceptional
  outcome. When some path matches, it returns the first match and prints nothing.
\<close>

theorem get_full_path_sentinel:
  "((\<forall>f \<in> set (get_file_paths w a IMAGE_EXT). \<not> endswith f relative_path) \<longrightarrow>
       get_full_path w a relative_path = (print ''Failed to find appropriate image path'' w, None)
       \<and> console (print ''Failed to find appropriate image path'' w)
           = console w @ [''Failed to find appropriate image path''])
   \<and> (\<forall>p. find (\<lambda>f. endswith f relative_path) (get_file_paths w a IMAGE_EXT) = Some p \<longrightarrow>
       get_full_path w a relative_path = (w, Some p))"
proof (intro conjI impI allI)
  assume "\<forall>f \<in> set (get_file_paths w a IMAGE_EXT). \<not> endswith f relative_path"
  then have "filter (\<lambda>f. endswith f relative_path) (get_file_paths w a IMAGE_EXT) = []"
    by (simp add: filter_empty_conv)
  then show "get_full_path w a relative_path = (print ''Failed to find appropriate image path'' w, None)"
    by (simp add: get_full_path_def py_index_empty)
next
  show "console (print ''Failed to find appropriate image path'' w)
           = console w @ [''Failed to find appropriate image path'']"
    by (simp add: print_def)
next
  fix p assume "find (\<lambda>f. endswith f relative_path) (get_file_paths w a IMAGE_EXT) = Some p"
  then have "\<exists>rest. filter (\<lambda>f. endswith f relative_path) (get_file_paths w a IMAGE_EXT) = p # rest"
    by (rule filter_find(2))
  then obtain rest where "filter (\<lambda>f. endswith f relative_path) (get_file_paths w a IMAGE_EXT) = p # rest" ..
  then show "get_full_path w a relative_path = (w, Some p)"
    by (simp add: get_full_path_def py_index_first)
qed

text \<open>
  Claim C5. When opening the dataset file raises FileNotFoundError, as it does when the
  file at the path given by \<^verbatim>\<open>get_db_path\<close> is missing, \<^verbatim>\<open>read_db\<close> returns the empty
  dataset and no exception; when opening succeeds it returns the dataset of that file.
\<close>

theorem read_db_missing_file:
  "((\<exists>m. open_dataset w (get_db_path w a) = Inl (FileNotFoundError m)) \<longrightarrow>
       read_db w a = Inr Empty_dataset)
   \<and> (\<forall>p. get_db_path w a = Some p \<and> files w p = None \<longrightarrow> read_db w a = Inr Empty_dataset)
   \<and> (\<forall>d. open_dataset w (get_db_path w a) = Inr d \<longrightarrow> read_db w a = Inr d)
   \<and> (\<forall>p d. get_db_path w a = Some p \<and> files w p = Some (Dataset_file d) \<longrightarrow> read_db w a = Inr d)
   \<and> (base_dir_input a \<in> set (dirs w) \<longrightarrow>
        get_db_path w a = Some (os_path_join (base_dir_input a) ''db.nc''))"
  by (auto simp: read_db_def open_dataset_def get_db_path_def)

lemma example_paths:
  "get_file_paths example_world example_app IMAGE_EXT = [''/data/a.tif'', ''/data/s/a.tif'']"
  by (simp add: get_file_paths_def example_world_def example_app_def IMAGE_EXT_def
      endswith_def os_path_join_def)

text \<open>In the example, \<^verbatim>\<open>/a.tif\<close> is found first at the top and \<^verbatim>\<open>/c.tif\<close> nowhere.\<close>

theorem get_full_path_sentinel_witness:
  "get_full_path example_world example_app ''/a.tif'' = (example_world, Some ''/data/a.tif'')
   \<and> get_full_path example_world example_app ''/c.tif''
       = (print ''Failed to find appropriate image path'' example_world, None)"
proof -
  have "find (\<lambda>f. endswith f ''/a.tif'') (get_file_paths example_world example_app IMAGE_EXT)
          = Some ''/data/a.tif''"
    by (simp add: example_paths endswith_def)
  moreover have "\<forall>f \<in> set (get_file_paths example_world example_app IMAGE_EXT). \<not> endswith f ''/c.tif''"
    by (simp add: example_paths endswith_def)
  ultimately show ?thesis
    using get_full_path_sentinel [of example_world example_app "''/a.tif''"]
      get_full_path_sentinel [of example_world example_app "''/c.tif''"]
    by blast
qed

text \<open>The example without, and with, a dataset file.\<close>

theorem read_db_missing_file_witness:
  "read_db example_world example_app = Inr Empty_dataset
   \<and> read_db (example_world\<lparr>files := [''/data/db.nc'' \<mapsto> Dataset_file (Scalar_path (Some ''/data/a.tif'') [])]\<rparr>)
         example_app = Inr (Scalar_path (Some ''/data/a.tif'') [])"
proof -
  let ?w = "example_world\<lparr>files := [''/data/db.nc'' \<mapsto> Dataset_file (Scalar_path (Some ''/data/a.tif'') [])]\<rparr>"
  have p1: "get_db_path example_world example_app = Some ''/data/db.nc''"
    by (simp add: get_db_path_def example_world_def example_app_def os_path_join_def)
  have p2: "get_db_path ?w example_app = Some ''/data/db.nc''"
    by (simp add: get_db_path_def example_world_def example_app_def os_path_join_def)
  have f1: "files example_world ''/data/db.nc'' = None" by (simp add: example_world_def)
  have f2: "files ?w ''/data/db.nc'' = Some (Dataset_file (Scalar_path (Some ''/data/a.tif'') []))"
    by simp
  show ?thesis
    using read_db_missing_file [of example_world example_app] read_db_missing_file [of ?w example_app]
      p1 p2 f1 f2 by blast
qed

section \<open>The projection is the maximum over the frames\<close>

lemma frame_shape_max:
  assumes "frame_shape f h w" and "frame_shape g h w"
  shows "frame_shape (map2 (map2 max) f g) h w"
    and "i < h \<Longrightarrow> j < w \<Longrightarrow> map2 (map2 max) f g ! i ! j = max (f ! i ! j) (g ! i ! j)"
proof -
  show "frame_shape (map2 (map2 max) f g) h w"
    using assms by (auto simp: frame_shape_def in_set_zip)
  assume ij: "i < h" "j < w"
  then have "length (f ! i) = w" "length (g ! i) = w"
    using assms by (simp_all add: frame_shape_def)
  then show "map2 (map2 max) f g ! i ! j = max (f ! i ! j) (g ! i ! j)"
    using assms ij by (simp add: frame_shape_def)
qed

lemma foldl_max_frames:
  assumes "frame_shape acc h w" and "\<forall>f \<in> set rest. frame_shape f h w"
  shows "frame_shape (foldl (map2 (map2 max)) acc rest) h w
     \<and> (\<forall>i<h. \<forall>j<w. foldl (map2 (map2 max)) acc rest ! i ! j
            = fold max (map (\<lambda>f. f ! i ! j) rest) (acc ! i ! j))"
  using assms
proof (induction rest arbitrary: acc)
  case Nil then show ?case by simp
next
  case (Cons f rest)
  have f: "frame_shape f h w" using Cons.prems by simp
  have step: "frame_shape (map2 (map2 max) acc f) h w"
    using Cons.prems(1) f by (rule frame_shape_max(1))
  have rest: "\<forall>g \<in> set rest. frame_shape g h w" using Cons.prems by simp
  have at: "\<And>i j. i < h \<Longrightarrow> j < w \<Longrightarrow> map2 (map2 max) acc f ! i ! j = max (acc ! i ! j) (f ! i ! j)"
    using Cons.prems(1) f by (rule frame_shape_max(2))
  from Cons.IH [OF step rest] at show ?case by (simp add: max.commute)
qed

lemma Max_over_frames:
  "fs \<noteq> [] \<Longrightarrow> fold max (map g (tl fs)) (g (hd fs)) = Max ((\<lambda>t. g (fs ! t)) ` {..<length fs})"
proof -
  assume ne: "fs \<noteq> []"
  then obtain f rest where fs: "fs = f # rest" by (cases fs) auto
  have "(\<lambda>t. g (fs ! t)) ` {..<length fs} = g ` set fs"
    by (auto simp: in_set_conv_nth image_iff intro: nth_mem)
  then have "Max ((\<lambda>t. g (fs ! t)) ` {..<length fs}) = Max (set (g f # map g rest))"
    by (simp add: fs)
  also have "\<dots> = fold max (map g rest) (g f)" by (rule Max.set_eq_fold)
  finally show ?thesis by (simp add: fs)
qed

text \<open>
  Claim C6. For a time stack of at least one frame, all frames of \<open>h\<close> rows and \<open>w\<close>
  columns, \<^verbatim>\<open>calculate_2d_projection\<close> returns one frame of \<open>h\<close> rows and \<open>w\<close> columns
  whose pixel \<open>(i, j)\<close> is the maximum over all frames \<open>t\<close> of pixel \<open>(t, i, j)\<close>.
\<close>

theorem projection_is_maximum:
  assumes "get_current_image a = Inr (Stack fs)" and "fs \<noteq> []"
    and "\<forall>f \<in> set fs. frame_shape f h w"
  shows "\<exists>p. calculate_2d_projection a = Inr (Some p) \<and> frame_shape p h w
           \<and> (\<forall>i<h. \<forall>j<w. p ! i ! j = Max ((\<lambda>t. fs ! t ! i ! j) ` {..<length fs}))"
proof -
  from assms(2) obtain f rest where fs: "fs = f # rest" by (cases fs) auto
  let ?p = "foldl (map2 (map2 max)) f rest"
  have calc: "calculate_2d_projection a = Inr (Some ?p)"
    by (simp add: calculate_2d_projection_def assms(1) np_max_axis0_def fs)
  have "frame_shape f h w" "\<forall>g \<in> set rest. frame_shape g h w" using assms(3) fs by simp_all
  from foldl_max_frames [OF this]
  have shape: "frame_shape ?p h w"
    and at: "\<forall>i<h. \<forall>j<w. ?p ! i ! j = fold max (map (\<lambda>f. f ! i ! j) rest) (f ! i ! j)"
    by simp_all
  have "\<forall>i<h. \<forall>j<w. ?p ! i ! j = Max ((\<lambda>t. fs ! t ! i ! j) ` {..<length fs})"
  proof (intro allI impI)
    fix i j assume "i < h" "j < w"
    then have "?p ! i ! j = fold max (map (\<lambda>f. f ! i ! j) (tl fs)) (hd fs ! i ! j)"
      using at by (simp add: fs)
    also have "\<dots> = Max ((\<lambda>t. fs ! t ! i ! j) ` {..<length fs})"
      using assms(2) by (rule Max_over_frames [where g = "\<lambda>f. f ! i ! j"])
    finally show "?p ! i ! j = Max ((\<lambda>t. fs ! t ! i ! j) ` {..<length fs})" .
  qed
  with calc shape show ?thesis by blast
qed

text \<open>The two frames of the example project to \<open>[[5, 2], [3, 9]]\<close>.\<close>

theorem projection_is_maximum_witness:
  "get_current_image example_app = Inr (Stack [[[1, 2], [3, 4]], [[5, 0], [2, 9]]])
   \<and> frame_shape [[1, 2], [3, 4]] 2 2 \<and> frame_shape [[5, 0], [2, 9]] 2 2
   \<and> calculate_2d_projection example_app = Inr (Some [[5, 2], [3, 9]])
   \<and> frame_shape [[5, 2], [3, 9]] 2 2
   \<and> [[5, 2], [3, 9 :: int]] ! 0 ! 0
       = Max ((\<lambda>t. [[[1, 2], [3, 4]], [[5, 0], [2, 9]]] ! t ! 0 ! 0)
              ` {..<length [[[1, 2], [3, 4]], [[5, 0], [2, 9 :: int]]]})
   \<and> [[5, 2], [3, 9 :: int]] ! 1 ! 1
       = Max ((\<lambda>t. [[[1, 2], [3, 4]], [[5, 0], [2, 9]]] ! t ! 1 ! 1)
              ` {..<length [[[1, 2], [3, 4]], [[5, 0], [2, 9 :: int]]]})"
proof -
  let ?fs = "[[[1, 2], [3, 4]], [[5, 0], [2, 9 :: int]]]"
  have h1: "get_current_image example_app = Inr (Stack ?fs)"
    by (simp add: get_current_image_def example_app_def py_index_def)
  have h2: "?fs \<noteq> []" by simp
  have h3: "\<forall>f \<in> set ?fs. frame_shape f 2 2" by (simp add: frame_shape_def)
  have v: "calculate_2d_projection example_app = Inr (Some [[5, 2], [3, 9]])"
    by (simp add: calculate_2d_projection_def h1 np_max_axis0_def)
  from projection_is_maximum [OF h1 h2 h3] v
  have p: "frame_shape [[5, 2], [3, 9]] 2 2"
    "\<forall>i<2. \<forall>j<2. [[5, 2], [3, 9 :: int]] ! i ! j = Max ((\<lambda>t. ?fs ! t ! i ! j) ` {..<length ?fs})"
    by auto
  have "[[5, 2], [3, 9 :: int]] ! 0 ! 0 = Max ((\<lambda>t. ?fs ! t ! 0 ! 0) ` {..<length ?fs})"
    using p(2) [rule_format, of 0 0] by simp
  moreover have "[[5, 2], [3, 9 :: int]] ! 1 ! 1 = Max ((\<lambda>t. ?fs ! t ! 1 ! 1) ` {..<length ?fs})"
    using p(2) [rule_format, of 1 1] by simp
  ultimately show ?thesis using h1 h3 v p(1) by simp
qed

section \<open>The region of an ROI loses a pixel when its rounded size is odd\<close>

lemma py_round_examples:
  "py_round 2.5 = 2" "py_round 3.5 = 4" "py_round (-0.5) = 0" "py_round 2.6 = 3"
  by (simp_all add: py_round_def)

lemma py_slice_inside:
  assumes "0 \<le> start" and "start \<le> stop" and "stop \<le> int (length xs)"
  shows "py_slice xs start stop = take (nat (stop - start)) (drop (nat start) xs)"
    and "length (py_slice xs start stop) = nat (stop - start)"
proof -
  have s: "slice_bound (length xs) start = nat start" "slice_bound (length xs) stop = nat stop"
    using assms by (auto simp: slice_bound_def)
  have d: "nat stop - nat start = nat (stop - start)" using assms by simp
  show "py_slice xs start stop = take (nat (stop - start)) (drop (nat start) xs)"
    by (simp only: py_slice_def s d)
  then show "length (py_slice xs start stop) = nat (stop - start)"
    using assms by simp
qed

lemma twice_half: "2 * ((w::int) div 2) = (if even w then w else w - 1)"
  by presburger

lemma py_slice_subset: "set (py_slice xs start stop) \<subseteq> set xs"
  by (auto simp: py_slice_def dest: in_set_takeD in_set_dropD)

text \<open>
  Claim C9, amended. Take a stored ROI with rounded width \<open>w\<close>, rounded height \<open>h\<close> and
  rounded centre \<open>(x_center, y_center)\<close>. If \<open>w\<close> is not negative and the column bounds
  lie inside the frame (\<open>0 \<le> x_center - w div 2\<close>, \<open>x_center + w div 2 \<le> columns\<close>),
  every row of the region that \<^verbatim>\<open>get_roi_data\<close> returns holds the columns from
  \<open>x_center - w div 2\<close> up to, not including, \<open>x_center + w div 2\<close>: it is \<open>w - 1\<close>
  pixels wide when \<open>w\<close> is odd and \<open>w\<close> pixels wide when \<open>w\<close> is even. In the same way,
  if \<open>h\<close> is not negative and the row bounds lie inside the frame, the region holds the
  rows from \<open>y_center - h div 2\<close> up to \<open>y_center + h div 2\<close>: \<open>h - 1\<close> rows when \<open>h\<close>
  is odd and \<open>h\<close> rows when \<open>h\<close> is even. Each of the two statements needs only its own
  bounds.
\<close>

theorem roi_region_inside_image:
  assumes width: "bnd (py_index (roi_width (rois a)) i) round_float = Inr w"
    and height: "bnd (py_index (roi_height (rois a)) i) round_float = Inr h"
    and x: "bnd (py_index (roi_x (rois a)) i) round_float = Inr xc"
    and y: "bnd (py_index (roi_y (rois a)) i) round_float = Inr yc"
    and image: "get_current_image a = Inr (Stack fs)"
    and frame: "np_index fs t = Inr f"
    and shape: "frame_shape f rows cols"
  shows "\<exists>region. get_roi_data a i t = Inr region
           \<and> (0 \<le> w \<and> 0 \<le> xc - w div 2 \<and> xc + w div 2 \<le> int cols \<longrightarrow>
                region = map (\<lambda>row. take (nat (2 * (w div 2))) (drop (nat (xc - w div 2)) row))
                             (py_slice f (yc - h div 2) (yc + h div 2))
                \<and> (\<forall>row \<in> set region. int (length row) = (if even w then w else w - 1)))
           \<and> (0 \<le> h \<and> 0 \<le> yc - h div 2 \<and> yc + h div 2 \<le> int rows \<longrightarrow>
                region = map (\<lambda>row. py_slice row (xc - w div 2) (xc + w div 2))
                             (take (nat (2 * (h div 2))) (drop (nat (yc - h div 2)) f))
                \<and> int (length region) = (if even h then h else h - 1))"
proof -
  let ?xs = "xc - w div 2" and ?xe = "xc + w div 2"
  let ?ys = "yc - h div 2" and ?ye = "yc + h div 2"
  let ?region = "map (\<lambda>row. py_slice row ?xs ?xe) (py_slice f ?ys ?ye)"
  have run: "get_roi_data a i t = Inr ?region"
    by (simp add: get_roi_data_def width height x y image frame Let_def)
  have lenf: "length f = rows" using shape by (simp add: frame_shape_def)
  have rows_in: "\<forall>row \<in> set (py_slice f ?ys ?ye). length row = cols"
    using shape py_slice_subset [of f ?ys ?ye] by (auto simp: frame_shape_def)
  have columns: "?region = map (\<lambda>row. take (nat (2 * (w div 2))) (drop (nat ?xs) row))
                             (py_slice f ?ys ?ye)
      \<and> (\<forall>row \<in> set ?region. int (length row) = (if even w then w else w - 1))"
    if inside: "0 \<le> w \<and> 0 \<le> ?xs \<and> ?xe \<le> int cols"
  proof -
    have wd: "0 \<le> w div 2" using inside by simp
    have xsl: "\<forall>row \<in> set (py_slice f ?ys ?ye).
        py_slice row ?xs ?xe = take (nat (2 * (w div 2))) (drop (nat ?xs) row)
        \<and> length (py_slice row ?xs ?xe) = nat (2 * (w div 2))"
    proof
      fix row assume "row \<in> set (py_slice f ?ys ?ye)"
      then have l: "length row = cols" using rows_in by blast
      show "py_slice row ?xs ?xe = take (nat (2 * (w div 2))) (drop (nat ?xs) row)
        \<and> length (py_slice row ?xs ?xe) = nat (2 * (w div 2))"
        using py_slice_inside [of ?xs ?xe row] inside wd l by simp
    qed
    then have "?region = map (\<lambda>row. take (nat (2 * (w div 2))) (drop (nat ?xs) row))
                             (py_slice f ?ys ?ye)" by simp
    moreover have "\<forall>row \<in> set ?region. int (length row) = (if even w then w else w - 1)"
      using xsl wd twice_half [of w] by auto
    ultimately show ?thesis by simp
  qed
  have lines: "?region = map (\<lambda>row. py_slice row ?xs ?xe)
                             (take (nat (2 * (h div 2))) (drop (nat ?ys) f))
      \<and> int (length ?region) = (if even h then h else h - 1)"
    if inside: "0 \<le> h \<and> 0 \<le> ?ys \<and> ?ye \<le> int rows"
  proof -
    have hd: "0 \<le> h div 2" using inside by simp
    have ysl: "py_slice f ?ys ?ye = take (nat (2 * (h div 2))) (drop (nat ?ys) f)"
      using py_slice_inside(1) [of ?ys ?ye f] inside hd lenf by simp
    have "length ?region = nat (2 * (h div 2))"
      using py_slice_inside(2) [of ?ys ?ye f] inside hd lenf by simp
    then have "int (length ?region) = (if even h then h else h - 1)"
      using hd twice_half [of h] by simp
    with ysl show ?thesis by simp
  qed
  from run columns lines show ?thesis by blast
qed

lemma roi_example_rounded:
  "bnd (py_index (roi_width (rois roi_example_app)) 0) round_float = Inr 3"
  "bnd (py_index (roi_height (rois roi_example_app)) 0) round_float = Inr 2"
  "bnd (py_index (roi_x (rois roi_example_app)) 0) round_float = Inr 2"
  "bnd (py_index (roi_y (rois roi_example_app)) 0) round_float = Inr 1"
  "bnd (py_index (roi_width (rois roi_example_app)) 1) round_float = Inr 3"
  "bnd (py_index (roi_height (rois roi_example_app)) 1) round_float = Inr 2"
  "bnd (py_index (roi_x (rois roi_example_app)) 1) round_float = Inr 4"
  "bnd (py_index (roi_y (rois roi_example_app)) 1) round_float = Inr 1"
  by (simp_all add: roi_example_app_def py_index_def round_float_def py_round_def)

lemma roi_example_image:
  "get_current_image roi_example_app
     = Inr (Stack [[[1, 2, 3, 4], [5, 6, 7, 8], [9, 10, 11, 12]]])"
  "np_index [[[1, 2, 3, 4], [5, 6, 7, 8], [9, 10, 11, 12 :: int]]] 0
     = Inr [[1, 2, 3, 4], [5, 6, 7, 8], [9, 10, 11, 12]]"
  "py_slice [[1, 2, 3, 4], [5, 6, 7, 8], [9, 10, 11, 12 :: int]] 0 2
     = [[1, 2, 3, 4], [5, 6, 7, 8]]"
  by (simp_all add: roi_example_app_def get_current_image_def py_index_def np_index_def
      py_slice_def slice_bound_def)

lemma roi_example_regions:
  "get_roi_data roi_example_app 0 0 = Inr [[2, 3], [6, 7]]"
  "get_roi_data roi_example_app 1 0 = Inr [[4], [8]]"
  unfolding get_roi_data_def
  by (simp only: roi_example_rounded bnd_Inr Let_def roi_example_image image.case,
      simp add: roi_example_image py_slice_def slice_bound_def)+

text \<open>
  The first ROI of the example: width 3 around column 2 gives columns 1 and 2, height 2
  around row 1 gives rows 0 and 1.
\<close>

theorem roi_region_inside_image_witness:
  "bnd (py_index (roi_width (rois roi_example_app)) 0) round_float = Inr 3
   \<and> bnd (py_index (roi_height (rois roi_example_app)) 0) round_float = Inr 2
   \<and> bnd (py_index (roi_x (rois roi_example_app)) 0) round_float = Inr 2
   \<and> bnd (py_index (roi_y (rois roi_example_app)) 0) round_float = Inr 1
   \<and> frame_shape [[1, 2, 3, 4], [5, 6, 7, 8], [9, 10, 11, 12]] 3 4
   \<and> (0 :: int) \<le> 3 \<and> (0 :: int) \<le> 2 - 3 div 2 \<and> (2 :: int) + 3 div 2 \<le> int 4
   \<and> (0 :: int) \<le> 2 \<and> (0 :: int) \<le> 1 - 2 div 2 \<and> (1 :: int) + 2 div 2 \<le> int 3
   \<and> get_roi_data roi_example_app 0 0 = Inr [[2, 3], [6, 7]]
   \<and> int (length [2, 3 :: int]) = (if even (3::int) then 3 else 3 - 1)
   \<and> int (length [6, 7 :: int]) = (if even (3::int) then 3 else 3 - 1)
   \<and> int (length [[2, 3], [6, 7 :: int]]) = (if even (2::int) then 2 else 2 - 1)"
proof -
  let ?f = "[[1, 2, 3, 4], [5, 6, 7, 8], [9, 10, 11, 12 :: int]]"
  note r = roi_example_rounded
  have shape: "frame_shape ?f 3 4" by (simp add: frame_shape_def)
  have inx: "(0::int) \<le> 3 \<and> (0::int) \<le> 2 - 3 div 2 \<and> (2::int) + 3 div 2 \<le> int 4" by simp
  have iny: "(0::int) \<le> 2 \<and> (0::int) \<le> 1 - 2 div 2 \<and> (1::int) + 2 div 2 \<le> int 3" by simp
  from roi_region_inside_image [OF r(1) r(2) r(3) r(4) roi_example_image(1)
      roi_example_image(2) shape]
  obtain region where reg: "get_roi_data roi_example_app 0 0 = Inr region"
    and cols: "(0::int) \<le> 3 \<and> (0::int) \<le> 2 - 3 div 2 \<and> (2::int) + 3 div 2 \<le> int 4 \<longrightarrow>
        region = map (\<lambda>row. take (nat (2 * (3 div 2))) (drop (nat (2 - 3 div 2)) row))
                     (py_slice ?f (1 - 2 div 2) (1 + 2 div 2))
        \<and> (\<forall>row \<in> set region. int (length row) = (if even (3::int) then 3 else 3 - 1))"
    and rows: "(0::int) \<le> 2 \<and> (0::int) \<le> 1 - 2 div 2 \<and> (1::int) + 2 div 2 \<le> int 3 \<longrightarrow>
        region = map (\<lambda>row. py_slice row (2 - 3 div 2) (2 + 3 div 2))
                     (take (nat (2 * (2 div 2))) (drop (nat (1 - 2 div 2)) ?f))
        \<and> int (length region) = (if even (2::int) then 2 else 2 - 1)"
    by blast
  have v: "region = [[2, 3], [6, 7]]"
    using reg by (simp only: roi_example_regions sum.inject)
  from cols inx have c: "\<forall>row \<in> set region. int (length row) = (if even (3::int) then 3 else 3 - 1)"
    by blast
  from rows iny have l: "int (length region) = (if even (2::int) then 2 else 2 - 1)" by blast
  have c1: "int (length [2, 3 :: int]) = (if even (3::int) then 3 else 3 - 1)"
    using c [unfolded v, rule_format, of "[2, 3]"] by simp
  have c2: "int (length [6, 7 :: int]) = (if even (3::int) then 3 else 3 - 1)"
    using c [unfolded v, rule_format, of "[6, 7]"] by simp
  show ?thesis
    by (intro conjI r(1) r(2) r(3) r(4) shape inx [THEN conjunct1]
        inx [THEN conjunct2, THEN conjunct1] inx [THEN conjunct2, THEN conjunct2]
        iny [THEN conjunct1] iny [THEN conjunct2, THEN conjunct1]
        iny [THEN conjunct2, THEN conjunct2] reg [unfolded v] c1 c2 l [unfolded v])
qed

text \<open>
  Claim C9 as stated fails for an ROI that reaches over the border of the image: the
  second ROI of the example has the odd rounded width 3 around column 4 of a frame of 4
  columns; the slice from column 3 to column 5 is clipped to column 3 alone, so the region
  is 1 pixel wide, not \<open>3 - 1\<close>.
\<close>

theorem roi_region_width_counterexample:
  "bnd (py_index (roi_width (rois roi_example_app)) 1) round_float = Inr 3
   \<and> bnd (py_index (roi_x (rois roi_example_app)) 1) round_float = Inr 4
   \<and> odd (3 :: int)
   \<and> get_roi_data roi_example_app 1 0 = Inr [[4], [8]]
   \<and> int (length [4 :: int]) \<noteq> 3 - 1
   \<and> int (length [4 :: int]) \<noteq> 2 * (3 div 2)"
  by (simp add: roi_example_rounded roi_example_regions)

section \<open>Zero is shown like missing metadata\<close>

text \<open>
  Claim C10, amended. For a parameter name in \<^verbatim>\<open>PARAM_GETTERS\<close> whose getter returns
  \<^verbatim>\<open>None\<close>, the integer 0 or the float 0.0, \<^verbatim>\<open>get_string\<close> returns \<^verbatim>\<open>'---'\<close>. It returns
  \<^verbatim>\<open>'INVALID'\<close> exactly when a KeyError is raised in its \<^verbatim>\<open>try\<close> block: for a name that is
  not in \<^verbatim>\<open>PARAM_GETTERS\<close>, and for a name in \<^verbatim>\<open>PARAM_GETTERS\<close> whose getter raises
  KeyError because the metadata lacks the key; this is so provided \<^verbatim>\<open>str\<close> of a number is
  never the text \<^verbatim>\<open>INVALID\<close>. Any other exception of the getter is not caught and leaves
  \<^verbatim>\<open>get_string\<close>.
\<close>

theorem get_string_placeholder:
  "(map_of PARAM_GETTERS param = Some getter \<and> getter lib w a = (w', Inr value)
      \<and> (value = None \<or> value = Some (PyInt 0) \<or> value = Some (PyFloat (Fl 0)))
      \<longrightarrow> get_string lib w a param = (w', Inr ''---''))
   \<and> ((\<forall>v. str_of lib v \<noteq> ''INVALID'') \<longrightarrow>
        (get_string lib w a param = (w', Inr ''INVALID'') \<longleftrightarrow>
           (param \<notin> fst ` set PARAM_GETTERS \<and> w' = w)
           \<or> (\<exists>g k. map_of PARAM_GETTERS param = Some g \<and> g lib w a = (w', Inl (KeyError k)))))
   \<and> (map_of PARAM_GETTERS param = Some getter \<and> getter lib w a = (w', Inl e)
      \<and> (\<forall>k. e \<noteq> KeyError k)
      \<longrightarrow> get_string lib w a param = (w', Inl e))"
proof (intro conjI impI)
  assume "map_of PARAM_GETTERS param = Some getter \<and> getter lib w a = (w', Inr value)
      \<and> (value = None \<or> value = Some (PyInt 0) \<or> value = Some (PyFloat (Fl 0)))"
  then show "get_string lib w a param = (w', Inr ''---'')"
    by (auto simp: get_string_def truthy_def is_zero_def)
next
  assume str: "\<forall>v. str_of lib v \<noteq> ''INVALID''"
  show "get_string lib w a param = (w', Inr ''INVALID'') \<longleftrightarrow>
           (param \<notin> fst ` set PARAM_GETTERS \<and> w' = w)
           \<or> (\<exists>g k. map_of PARAM_GETTERS param = Some g \<and> g lib w a = (w', Inl (KeyError k)))"
  proof (cases "map_of PARAM_GETTERS param")
    case None
    then have "param \<notin> fst ` set PARAM_GETTERS" by (simp add: map_of_eq_None_iff)
    with None show ?thesis by (auto simp: get_string_def)
  next
    case (Some g)
    then have mem: "param \<in> fst ` set PARAM_GETTERS"
      by (metis map_of_eq_None_iff option.distinct(1))
    obtain w2 r2 where g: "g lib w a = (w2, r2)" by (cases "g lib w a") auto
    show ?thesis
    proof (cases r2)
      case (Inl e)
      with Some g mem show ?thesis by (cases e) (auto simp: get_string_def)
    next
      case (Inr v)
      with Some g mem str show ?thesis
        by (cases v) (auto simp: get_string_def)
    qed
  qed
next
  assume "map_of PARAM_GETTERS param = Some getter \<and> getter lib w a = (w', Inl e)
      \<and> (\<forall>k. e \<noteq> KeyError k)"
  then show "get_string lib w a param = (w', Inl e)"
    by (cases e) (auto simp: get_string_def)
qed

lemma example_getters:
  "get_zoom_factor example_app = Inr (Some (PyInt 0))"
  "get_number_of_rows example_app = Inl (KeyError ''SI.hRoiManager.linesPerFrame'')"
  by (simp_all add: get_zoom_factor_def get_number_of_rows_def frame_data_def
      get_current_metadata_def example_app_def py_index_def dict_get_def)

lemma example_param_getters:
  "map_of PARAM_GETTERS ''zoom_factor'' = Some (\<lambda>lib w a. (w, get_zoom_factor a))"
  "map_of PARAM_GETTERS ''n_rows'' = Some (\<lambda>lib w a. (w, get_number_of_rows a))"
  "''nonsense'' \<notin> fst ` set PARAM_GETTERS"
  "''n_rows'' \<in> fst ` set PARAM_GETTERS"
  by (simp_all add: PARAM_GETTERS_def)

lemma example_line_rate_zero_period:
  "get_line_rate (example_app\<lparr>raw_meta := [Some [(''FrameData'',
       [(''SI.hRoiManager.linePeriod'', PyInt 0)])]]\<rparr>)
     = Inl (ZeroDivisionError ''division by zero'')"
  by (simp add: get_line_rate_def frame_data_def get_current_metadata_def py_index_def
      dict_get_def py_truediv_def is_zero_def)

lemma example_line_rate_getter:
  "map_of PARAM_GETTERS ''line_rate'' = Some (\<lambda>lib w a. (w, get_line_rate a))"
  by (simp add: PARAM_GETTERS_def)

lemma example_str_of: "\<forall>v. str_of example_library v \<noteq> ''INVALID''"
  by (simp add: example_library_def)

text \<open>
  In the example the zoom factor is 0, the number of rows is not in the metadata, and
  \<^verbatim>\<open>nonsense\<close> is no parameter; with a line period of 0 the getter of the line rate
  divides by zero.
\<close>

theorem get_string_placeholder_witness:
  "get_string example_library example_world example_app ''zoom_factor'' = (example_world, Inr ''---'')
   \<and> get_string example_library example_world example_app ''nonsense'' = (example_world, Inr ''INVALID'')
   \<and> get_string example_library example_world example_app ''n_rows'' = (example_world, Inr ''INVALID'')
   \<and> get_string example_library example_world example_app ''zoom_factor''
       \<noteq> (example_world, Inr ''INVALID'')
   \<and> get_string example_library example_world
         (example_app\<lparr>raw_meta := [Some [(''FrameData'',
            [(''SI.hRoiManager.linePeriod'', PyInt 0)])]]\<rparr>) ''line_rate''
       = (example_world, Inl (ZeroDivisionError ''division by zero''))"
proof -
  let ?z = "example_app\<lparr>raw_meta := [Some [(''FrameData'',
            [(''SI.hRoiManager.linePeriod'', PyInt 0)])]]\<rparr>"
  have z: "map_of PARAM_GETTERS ''zoom_factor'' = Some (\<lambda>lib w a. (w, get_zoom_factor a))
      \<and> (\<lambda>lib w a. (w, get_zoom_factor a)) example_library example_world example_app
          = (example_world, Inr (Some (PyInt 0)))
      \<and> (Some (PyInt 0) = None \<or> Some (PyInt 0) = Some (PyInt 0) \<or> Some (PyInt 0) = Some (PyFloat (Fl 0)))"
    by (simp add: example_param_getters example_getters)
  have c1: "get_string example_library example_world example_app ''zoom_factor''
      = (example_world, Inr ''---'')"
    using get_string_placeholder [of "''zoom_factor''" "\<lambda>lib w a. (w, get_zoom_factor a)"
        example_library example_world example_app example_world "Some (PyInt 0)"] z
    by blast
  have c2: "get_string example_library example_world example_app ''nonsense''
      = (example_world, Inr ''INVALID'')"
    using get_string_placeholder [of "''nonsense''" _ example_library example_world example_app
        example_world] example_str_of example_param_getters(3)
    by blast
  have n: "map_of PARAM_GETTERS ''n_rows'' = Some (\<lambda>lib w a. (w, get_number_of_rows a))
      \<and> (\<lambda>lib w a. (w, get_number_of_rows a)) example_library example_world example_app
          = (example_world, Inl (KeyError ''SI.hRoiManager.linesPerFrame''))"
    by (simp add: example_param_getters example_getters)
  have c3: "get_string example_library example_world example_app ''n_rows''
      = (example_world, Inr ''INVALID'')"
    using get_string_placeholder [of "''n_rows''" _ example_library example_world example_app
        example_world] example_str_of n
    by blast
  have c4: "get_string example_library example_world example_app ''zoom_factor''
      \<noteq> (example_world, Inr ''INVALID'')"
    using c1 by simp
  have l: "map_of PARAM_GETTERS ''line_rate'' = Some (\<lambda>lib w a. (w, get_line_rate a))
      \<and> (\<lambda>lib w a. (w, get_line_rate a)) example_library example_world ?z
          = (example_world, Inl (ZeroDivisionError ''division by zero''))
      \<and> (\<forall>k. ZeroDivisionError ''division by zero'' \<noteq> KeyError k)"
    by (simp add: example_line_rate_zero_period example_line_rate_getter)
  have c5: "get_string example_library example_world ?z ''line_rate''
      = (example_world, Inl (ZeroDivisionError ''division by zero''))"
    using get_string_placeholder [of "''line_rate''" "\<lambda>lib w a. (w, get_line_rate a)"
        example_library example_world ?z example_world _ "ZeroDivisionError ''division by zero''"] l
    by blast
  from c1 c2 c3 c4 c5 show ?thesis by (intro conjI)
qed

text \<open>
  Claim C10 as stated fails in its last part: \<^verbatim>\<open>n_rows\<close> is a name in \<^verbatim>\<open>PARAM_GETTERS\<close>,
  and with metadata that lacks the number of rows \<^verbatim>\<open>get_string\<close> returns \<^verbatim>\<open>'INVALID'\<close>.
\<close>

theorem get_string_invalid_counterexample:
  "''n_rows'' \<in> fst ` set PARAM_GETTERS
   \<and> get_number_of_rows example_app = Inl (KeyError ''SI.hRoiManager.linesPerFrame'')
   \<and> get_string example_library example_world example_app ''n_rows'' = (example_world, Inr ''INVALID'')"
  by (simp add: get_string_def example_param_getters example_getters)

lemma as_variable_number: "as_variable (Num n) = Inr (Item n)"
  by (simp add: as_variable_def)

section \<open>Saving is not atomic\<close>

lemma print_world [simp]:
  "files (print s w) = files w" "events (print s w) = events w" "dirs (print s w) = dirs w"
  "write_error (print s w) = write_error w" "walk (print s w) = walk w"
  by (simp_all add: print_def)

lemma emit_world [simp]:
  "files (emit ev w) = files w" "events (emit ev w) = events w @ [ev]" "dirs (emit ev w) = dirs w"
  "write_error (emit ev w) = write_error w" "console (emit ev w) = console w"
  by (simp_all add: emit_def)

lemma get_full_path_world:
  assumes "get_full_path w a rel = (w1, path)"
  shows "files w1 = files w" "events w1 = events w" "dirs w1 = dirs w"
    "write_error w1 = write_error w"
  using assms by (auto simp: get_full_path_def split: sum.splits error.splits)

lemma get_db_path_dirs: "dirs w1 = dirs w \<Longrightarrow> get_db_path w1 a = get_db_path w a"
  by (simp add: get_db_path_def)

lemma update_fields_world:
  "update_fields lib path dv db w = (w', r) \<Longrightarrow>
     files w' = files w \<and> write_error w' = write_error w \<and> dirs w' = dirs w
     \<and> (\<exists>ks. events w' = events w @ map Assign ks)"
proof (induction lib path dv db w rule: update_fields.induct)
  case (1 lib path db w)
  then show ?case by simp
next
  case (2 lib path key "value" rest db w)
  show ?case
  proof (cases "path_is_str db")
    case False
    show ?thesis
    proof (cases "loc_get db key path")
      case (Inl e)
      with False "2.prems" show ?thesis by simp
    next
      case (Inr stored)
      show ?thesis
      proof (cases "differs stored value")
        case d: False
        with False Inr "2.prems" have "update_fields lib path rest db w = (w', r)" by simp
        from "2.IH"(2) [OF False Inr d this] show ?thesis .
      next
        case d: True
        show ?thesis
        proof (cases "loc_set lib db key path value")
          case e: (Inl e)
          with False Inr d "2.prems" have "w' = emit (Assign key) w" by simp
          then have "events w' = events w @ map Assign [key]" by simp
          with \<open>w' = emit (Assign key) w\<close> show ?thesis by (metis emit_world(1,3,4))
        next
          case s: (Inr db')
          with False Inr d "2.prems"
          have run: "update_fields lib path rest db' (emit (Assign key) w) = (w', r)" by simp
          from "2.IH"(1) [OF False Inr d s run]
          obtain ks where "files w' = files w" "write_error w' = write_error w" "dirs w' = dirs w"
            "events w' = events w @ map Assign (key # ks)" by auto
          then show ?thesis by blast
        qed
      qed
    qed
  next
    case True
    show ?thesis
    proof (cases "var_get db key")
      case (Inl e)
      with True "2.prems" show ?thesis by simp
    next
      case (Inr stored)
      show ?thesis
      proof (cases "differs stored value")
        case d: False
        with True Inr "2.prems" have "update_fields lib path rest db w = (w', r)" by simp
        from "2.IH"(4) [OF _ Inr d this] True show ?thesis by simp
      next
        case d: True
        show ?thesis
        proof (cases "var_set db key value")
          case e: (Inl e)
          with True Inr d "2.prems" have "w' = emit (Assign key) w" by simp
          then have "events w' = events w @ map Assign [key]" by simp
          with \<open>w' = emit (Assign key) w\<close> show ?thesis by (metis emit_world(1,3,4))
        next
          case s: (Inr db')
          with True Inr d "2.prems"
          have run: "update_fields lib path rest db' (emit (Assign key) w) = (w', r)" by simp
          from "2.IH"(3) [OF _ Inr d s run] True
          obtain ks where "files w' = files w" "write_error w' = write_error w" "dirs w' = dirs w"
            "events w' = events w @ map Assign (key # ks)" by auto
          then show ?thesis by blast
        qed
      qed
    qed
  qed
qed

lemma field_event_Assign: "list_all field_event (map Assign ks)"
  by (induction ks) (simp_all add: field_event_def)

lemma append_record_world:
  assumes "append_record lib a path dv db w = (w', r)"
  shows "files w' = files w \<and> write_error w' = write_error w \<and> dirs w' = dirs w
     \<and> (\<exists>as. events w' = events w @ as \<and> list_all field_event as
             \<and> (as = [] \<or> as = [Concat path]))"
proof (cases "bnd (create_coords_dict a path) (\<lambda>coords.
           bnd (xr_Dataset dv coords) (\<lambda>ds. xr_concat lib db ds))")
  case (Inl e)
  with assms have "w' = w" by (simp add: append_record_def)
  then show ?thesis by simp
next
  case (Inr db')
  with assms have "w' = emit (Concat path) w" by (simp add: append_record_def)
  then show ?thesis by (simp add: field_event_def)
qed

lemma save_raises_early:
  assumes "get_full_path w a (image_select a) = (w1, path)"
    and "create_data_dict lib a = Inl e"
  shows "save lib w a = (w1, Inl e)"
  using assms by (simp add: save_def)

lemma save_existing_file:
  assumes "get_full_path w a (image_select a) = (w1, path)"
    and "create_data_dict lib a = Inr dv"
    and "get_db_path w1 a = Some p"
    and "isfile w1 p"
  shows "save lib w a =
     (case open_dataset w1 (Some p) of
        Inl e \<Rightarrow> (w1, Inl e)
      | Inr db \<Rightarrow>
          (case path_values db of
             Inl e \<Rightarrow> (w1, Inl e)
           | Inr paths \<Rightarrow>
               (case (if path \<in> set paths
                      then update_fields lib path dv db
                             (print ''trying to update DB for existing path'' w1)
                      else append_record lib a path dv db
                             (print ''trying to update DB with new path'' w1)) of
                  (w2, Inl e) \<Rightarrow> (w2, Inl e)
                | (w2, Inr db') \<Rightarrow>
                    (case os_remove p w2 of
                       (w3, Inl e) \<Rightarrow> (w3, Inl e)
                     | (w3, Inr u) \<Rightarrow> to_netcdf db' p w3))))"
  unfolding save_def by (simp only: assms prod.case sum.case option.case if_True)

text \<open>
  Claim C2. When a dataset file exists at the path of the database, a run of \<^verbatim>\<open>save\<close>
  ends in one of three ways. It raises before it touches the file. Or it removes the file
  and the write that follows raises: then no file is left at the path. Or it removes the
  file and then writes the new dataset. So the removal always comes before the write, and
  the old file is gone whether or not the write completes.
\<close>

theorem save_not_atomic:
  assumes "get_db_path w a = Some p" and "files w p = Some c" and "save lib w a = (w', r)"
  shows "\<exists>as. list_all field_event as \<and>
           ((events w' = events w @ as \<and> files w' = files w \<and> (\<exists>e. r = Inl e))
          \<or> (events w' = events w @ as @ [Remove p] \<and> files w' = (files w)(p := None)
               \<and> (\<exists>e. r = Inl e))
          \<or> (\<exists>d. events w' = events w @ as @ [Remove p, Write p d]
               \<and> files w' = (files w)(p \<mapsto> Dataset_file d) \<and> r = Inr ()))"
proof -
  obtain w1 path where gfp: "get_full_path w a (image_select a) = (w1, path)"
    by (cases "get_full_path w a (image_select a)") auto
  note w1 = get_full_path_world [OF gfp]
  have dbp: "get_db_path w1 a = Some p"
    using assms(1) get_db_path_dirs [OF w1(3), of a] by simp
  have isf: "isfile w1 p" using assms(2) w1(1) by (simp add: isfile_def)
  have early: "?thesis" if "save lib w a = (w1, Inl e)" for e
  proof -
    from that assms(3) have "w' = w1" "r = Inl e" by simp_all
    then have "list_all field_event [] \<and> events w' = events w @ [] \<and> files w' = files w
        \<and> (\<exists>e. r = Inl e)"
      using w1 by simp
    then show ?thesis by (intro exI [of _ "[]"]) simp
  qed
  show ?thesis
  proof (cases "create_data_dict lib a")
    case (Inl e)
    from save_raises_early [OF gfp Inl] show ?thesis by (rule early)
  next
    case dv: (Inr dv)
    note sv = save_existing_file [OF gfp dv dbp isf]
    show ?thesis
    proof (cases "open_dataset w1 (Some p)")
      case (Inl e)
      from sv have "save lib w a = (w1, Inl e)" by (simp only: Inl sum.case)
      then show ?thesis by (rule early)
    next
      case db: (Inr db)
      show ?thesis
      proof (cases "path_values db")
        case (Inl e)
        from sv have "save lib w a = (w1, Inl e)" by (simp only: db Inl sum.case)
        then show ?thesis by (rule early)
      next
        case paths: (Inr paths)
        let ?branch = "if path \<in> set paths
                       then update_fields lib path dv db
                              (print ''trying to update DB for existing path'' w1)
                       else append_record lib a path dv db
                              (print ''trying to update DB with new path'' w1)"
        obtain w2 r2 where br: "?branch = (w2, r2)" by (cases ?branch) auto
        have "files w2 = files w \<and> write_error w2 = write_error w
            \<and> (\<exists>as. events w2 = events w @ as \<and> list_all field_event as)"
        proof (cases "path \<in> set paths")
          case True
          with br have "update_fields lib path dv db
              (print ''trying to update DB for existing path'' w1) = (w2, r2)" by simp
          from update_fields_world [OF this] obtain ks where
            "files w2 = files w1" "write_error w2 = write_error w1"
            "events w2 = events w1 @ map Assign ks" by auto
          then have "files w2 = files w \<and> write_error w2 = write_error w
             \<and> events w2 = events w @ map Assign ks \<and> list_all field_event (map Assign ks)"
            using w1 field_event_Assign by simp
          then show ?thesis by blast
        next
          case False
          with br have "append_record lib a path dv db
              (print ''trying to update DB with new path'' w1) = (w2, r2)" by simp
          from append_record_world [OF this] obtain as where
            "files w2 = files w1" "write_error w2 = write_error w1"
            "events w2 = events w1 @ as" "list_all field_event as" by auto
          then have "files w2 = files w \<and> write_error w2 = write_error w
             \<and> events w2 = events w @ as \<and> list_all field_event as"
            using w1 by simp
          then show ?thesis by blast
        qed
        then obtain as where as: "events w2 = events w @ as" "list_all field_event as"
          and f2: "files w2 = files w" and we2: "write_error w2 = write_error w" by blast
        have rest: "save lib w a = (case r2 of Inl e \<Rightarrow> (w2, Inl e)
                     | Inr db' \<Rightarrow> (case os_remove p w2 of
                          (w3, Inl e) \<Rightarrow> (w3, Inl e)
                        | (w3, Inr u) \<Rightarrow> to_netcdf db' p w3))"
          using sv by (simp only: db paths br sum.case prod.case)
        show ?thesis
        proof (cases r2)
          case (Inl e)
          with rest assms(3) have "w' = w2" "r = Inl e" by simp_all
          then have "list_all field_event as \<and> events w' = events w @ as \<and> files w' = files w
              \<and> (\<exists>e. r = Inl e)"
            using as f2 by simp
          then show ?thesis by (intro exI [of _ as]) simp
        next
          case (Inr db')
          let ?w3 = "emit (Remove p) (w2\<lparr>files := (files w2)(p := None)\<rparr>)"
          have rm: "os_remove p w2 = (?w3, Inr ())"
            using assms(2) f2 by (simp add: os_remove_def)
          have ev3: "events ?w3 = events w @ as @ [Remove p]" using as by simp
          have f3: "files ?w3 = (files w)(p := None)" using f2 by simp
          have "save lib w a = to_netcdf db' p ?w3"
            using rest by (simp only: Inr rm sum.case prod.case)
          with assms(3) have nc: "to_netcdf db' p ?w3 = (w', r)" by simp
          show ?thesis
          proof (cases "write_error ?w3 db'")
            case (Some e)
            with nc have "w' = ?w3" "r = Inl e" by (simp_all add: to_netcdf_def)
            then have "list_all field_event as \<and> events w' = events w @ as @ [Remove p]
                \<and> files w' = (files w)(p := None) \<and> (\<exists>e. r = Inl e)"
              using as(2) ev3 f3 by simp
            then show ?thesis by (intro exI [of _ as]) simp
          next
            case None
            with nc have "w' = emit (Write p db') (?w3\<lparr>files := (files ?w3)(p \<mapsto> Dataset_file db')\<rparr>)"
              "r = Inr ()" by (simp_all add: to_netcdf_def)
            then have "list_all field_event as
                \<and> events w' = events w @ as @ [Remove p, Write p db']
                \<and> files w' = (files w)(p \<mapsto> Dataset_file db') \<and> r = Inr ()"
              using as f2 by simp
            then show ?thesis by (intro exI [of _ as]) simp
          qed
        qed
      qed
    qed
  qed
qed

section \<open>The update loop\<close>

lemma update_fields_step:
  "update_fields lib path ((key, value) # rest) db w =
     (case stored_value db path key of
        Inl e \<Rightarrow> (w, Inl e)
      | Inr stored \<Rightarrow>
          if differs stored value then
            (case assign_field lib db key path value of
               Inl e \<Rightarrow> (emit (Assign key) w, Inl e)
             | Inr db' \<Rightarrow> update_fields lib path rest db' (emit (Assign key) w))
          else update_fields lib path rest db w)"
  by (cases "path_is_str db") (simp_all add: stored_value_def assign_field_def split: sum.splits)

lemma map_of_map_entry:
  "map_of (map (\<lambda>(p, vs). if p = path then (p, g vs) else (p, vs)) es) q
     = (if q = path then map_option g (map_of es q) else map_of es q)"
  by (induction es) auto

lemma dict_get_update:
  "dict_get (AList.update key new vs) k = (if k = key then Inr new else dict_get vs k)"
  by (simp add: dict_get_def update_conv')

lemma loc_get_Inr:
  assumes "loc_get db key path = Inr stored"
  obtains es vs where "db = Path_axis es" "map_of es path = Some vs" "dict_get vs key = Inr stored"
  using assms
  by (cases db) (auto simp: loc_get_def bnd_def split: option.splits sum.splits)

lemma assign_field_frame:
  assumes "assign_field lib db key path value = Inr db1"
  shows "path_is_str db1 = path_is_str db"
    and "path_values db1 = path_values db"
    and "k \<noteq> key \<Longrightarrow> stored_value db1 path k = stored_value db path k"
proof -
  have all: "path_is_str db1 = path_is_str db \<and> path_values db1 = path_values db
      \<and> (k \<noteq> key \<longrightarrow> stored_value db1 path k = stored_value db path k)"
  proof (cases "path_is_str db")
    case True
    then obtain q vs where db: "db = Scalar_path (Some q) vs"
      by (auto simp: path_is_str_def split: dataset.splits option.splits)
    from assms True db obtain arr where "db1 = Scalar_path (Some q) (AList.update key arr vs)"
      by (auto simp: assign_field_def var_set_def bnd_def split: sum.splits)
    with db show ?thesis
      by (simp add: path_is_str_def path_values_def stored_value_def var_get_def dict_get_update)
  next
    case False
    with assms have ls: "loc_set lib db key path value = Inr db1" by (simp add: assign_field_def)
    then obtain stored where lg: "loc_get db key path = Inr stored"
      by (cases "loc_get db key path") (auto simp: loc_set_def)
    from lg obtain es vs where db: "db = Path_axis es" "map_of es path = Some vs"
      by (rule loc_get_Inr)
    from ls lg db obtain new where
      db1: "db1 = Path_axis (map (\<lambda>(p, vs). if p = path then (p, AList.update key new vs) else (p, vs)) es)"
      by (auto simp: loc_set_def bnd_def split: sum.splits)
    have "map fst (map (\<lambda>(p, vs). if p = path then (p, AList.update key new vs) else (p, vs)) es)
        = map fst es" by (induction es) auto
    with db db1 show ?thesis
      by (simp add: path_is_str_def path_values_def stored_value_def loc_get_def
          map_of_map_entry dict_get_update)
  qed
  from all show "path_is_str db1 = path_is_str db" "path_values db1 = path_values db"
    "k \<noteq> key \<Longrightarrow> stored_value db1 path k = stored_value db path k" by simp_all
qed

lemma field_differs_head:
  "field_differs db path ((key, value) # rest) key
     = (case stored_value db path key of Inr stored \<Rightarrow> differs stored value | Inl e \<Rightarrow> False)"
  by (simp add: field_differs_def split: sum.splits)

lemma field_differs_rest:
  assumes "k \<noteq> key" and "stored_value db1 path k = stored_value db path k"
  shows "field_differs db path ((key, value) # rest) k = field_differs db1 path rest k"
  using assms by (simp add: field_differs_def)

lemma field_differs_key: "field_differs db path dv k \<Longrightarrow> k \<in> fst ` set dv"
  by (auto simp: field_differs_def split: sum.splits option.splits dest: map_of_SomeD
      intro: rev_image_eqI)

lemma update_fields_trace:
  assumes "distinct (map fst dv)" and "update_fields lib path dv db w = (w', r)"
  shows "\<exists>ks. events w' = events w @ map Assign ks
           \<and> (\<forall>k \<in> set ks. field_differs db path dv k)
           \<and> (\<forall>db'. r = Inr db' \<longrightarrow>
                 ks = filter (field_differs db path dv) (map fst dv)
                 \<and> path_values db' = path_values db)"
  using assms
proof (induction dv arbitrary: db w)
  case Nil
  then have "events w' = events w @ map Assign []" "r = Inr db" by simp_all
  then show ?case by auto
next
  case (Cons kv rest)
  obtain key "value" where kv: "kv = (key, value)" by (cases kv) auto
  have dist: "distinct (map fst rest)" and fresh: "key \<notin> fst ` set rest"
    using Cons.prems(1) kv by simp_all
  note run = Cons.prems(2) [unfolded kv update_fields_step]
  show ?case
  proof (cases "stored_value db path key")
    case (Inl e)
    with run have "events w' = events w @ map Assign []" "r = Inl e" by simp_all
    then show ?thesis by auto
  next
    case (Inr stored)
    show ?thesis
    proof (cases "differs stored value")
      case False
      with run Inr have "update_fields lib path rest db w = (w', r)" by simp
      from Cons.IH [OF dist this] obtain ks where
        ks: "events w' = events w @ map Assign ks"
          "\<forall>k \<in> set ks. field_differs db path rest k"
          "\<forall>db'. r = Inr db' \<longrightarrow> ks = filter (field_differs db path rest) (map fst rest)
                 \<and> path_values db' = path_values db"
        by blast
      have same: "field_differs db path (kv # rest) k = field_differs db path rest k"
        if "k \<in> fst ` set rest" for k
        using that fresh unfolding kv by (intro field_differs_rest) auto
      have head: "\<not> field_differs db path (kv # rest) key"
        using Inr False by (simp add: kv field_differs_head)
      have f: "filter (field_differs db path (kv # rest)) (map fst (kv # rest))
          = filter (field_differs db path rest) (map fst rest)"
        using head same by (auto simp: kv intro: filter_cong)
      have c2: "\<forall>k \<in> set ks. field_differs db path (kv # rest) k"
      proof
        fix k assume "k \<in> set ks"
        with ks(2) have d: "field_differs db path rest k" by blast
        then have "k \<in> fst ` set rest" by (rule field_differs_key)
        with d show "field_differs db path (kv # rest) k" by (simp add: same)
      qed
      have c3: "\<forall>db'. r = Inr db' \<longrightarrow>
          ks = filter (field_differs db path (kv # rest)) (map fst (kv # rest))
          \<and> path_values db' = path_values db"
        using ks(3) by (simp only: f) 
      from ks(1) c2 c3 show ?thesis by blast
    next
      case True
      have head: "field_differs db path (kv # rest) key"
        using Inr True by (simp add: kv field_differs_head)
      show ?thesis
      proof (cases "assign_field lib db key path value")
        case (Inl e)
        with run Inr True have "events w' = events w @ map Assign [key]" "r = Inl e"
          by (auto simp: emit_def)
        with head have "events w' = events w @ map Assign [key]
           \<and> (\<forall>k \<in> set [key]. field_differs db path (kv # rest) k)
           \<and> (\<forall>db'. r = Inr db' \<longrightarrow>
                 [key] = filter (field_differs db path (kv # rest)) (map fst (kv # rest))
                 \<and> path_values db' = path_values db)" by simp
        then show ?thesis by blast
      next
        case db1: (Inr db1)
        with run Inr True
        have "update_fields lib path rest db1 (emit (Assign key) w) = (w', r)" by simp
        from Cons.IH [OF dist this] obtain ks where
          ks: "events w' = events w @ map Assign (key # ks)"
            "\<forall>k \<in> set ks. field_differs db1 path rest k"
            "\<forall>db'. r = Inr db' \<longrightarrow> ks = filter (field_differs db1 path rest) (map fst rest)
                   \<and> path_values db' = path_values db1"
          by (auto simp: emit_def)
        note fr = assign_field_frame [OF db1]
        have same: "field_differs db path (kv # rest) k = field_differs db1 path rest k"
          if "k \<in> fst ` set rest" for k
        proof -
          from that fresh have "k \<noteq> key" by auto
          then show ?thesis unfolding kv by (intro field_differs_rest fr(3))
        qed
        have f: "filter (field_differs db path (kv # rest)) (map fst (kv # rest))
            = key # filter (field_differs db1 path rest) (map fst rest)"
          using head same by (auto simp: kv intro: filter_cong)
        have c2: "\<forall>k \<in> set (key # ks). field_differs db path (kv # rest) k"
        proof
          fix k assume "k \<in> set (key # ks)"
          then consider "k = key" | "k \<in> set ks" by auto
          then show "field_differs db path (kv # rest) k"
          proof cases
            case 1 with head show ?thesis by simp
          next
            case 2
            with ks(2) have d: "field_differs db1 path rest k" by blast
            then have "k \<in> fst ` set rest" by (rule field_differs_key)
            with d show ?thesis by (simp add: same)
          qed
        qed
        have c3: "\<forall>db'. r = Inr db' \<longrightarrow>
            key # ks = filter (field_differs db path (kv # rest)) (map fst (kv # rest))
            \<and> path_values db' = path_values db"
          using ks(3) by (simp only: f fr(2)) simp
        from ks(1) c2 c3 show ?thesis by blast
      qed
    qed
  qed
qed

section \<open>Update of an existing record, append of a new one\<close>

lemma create_data_dict_keys:
  assumes "create_data_dict lib a = Inr dv"
  shows "map fst dv = [''2d_projection'', ''line_rate'', ''frame_rate'', ''roi_data'',
                       ''vector_data'', ''corr_calc_state'', ''fitting_state'']"
    and "map_of dv ''corr_calc_state'' = Some (Num (PyInt 0))"
    and "map_of dv ''fitting_state'' = Some (Num (PyInt 0))"
  using assms by (auto simp: create_data_dict_def bnd_def split: sum.splits)

lemma create_data_dict_distinct:
  "create_data_dict lib a = Inr dv \<Longrightarrow> distinct (map fst dv)"
  by (simp add: create_data_dict_keys(1))

lemma as_variables_keys: "as_variables dv = Inr vs \<Longrightarrow> map fst vs = map fst dv"
proof (induction dv arbitrary: vs)
  case Nil then show ?case by simp
next
  case (Cons kv dv)
  obtain key "value" where kv: "kv = (key, value)" by (cases kv) auto
  from Cons.prems obtain arr vs' where "as_variables dv = Inr vs'" "vs = (key, arr) # vs'"
    by (auto simp: kv bnd_def split: sum.splits)
  with Cons.IH show ?case by (simp add: kv)
qed

lemma create_coords_dict_path:
  "create_coords_dict a path = Inr c \<Longrightarrow> coord_path c = path"
  by (auto simp: create_coords_dict_def bnd_def split: sum.splits image.splits prod.splits)

lemma append_record_result:
  assumes "append_record lib a path dv db w = (w2, r2)"
  shows "(\<forall>e. r2 = Inl e \<longrightarrow> w2 = w)
       \<and> (\<forall>db'. r2 = Inr db' \<longrightarrow> w2 = emit (Concat path) w
             \<and> (\<exists>vs. as_variables dv = Inr vs \<and> db' = Path_axis (entries db @ [(path, vs)])))"
proof (cases "bnd (create_coords_dict a path) (\<lambda>coords.
           bnd (xr_Dataset dv coords) (\<lambda>ds. xr_concat lib db ds))")
  case (Inl e)
  with assms show ?thesis by (auto simp: append_record_def)
next
  case (Inr db')
  then obtain c where c: "create_coords_dict a path = Inr c"
    and d: "bnd (xr_Dataset dv c) (\<lambda>ds. xr_concat lib db ds) = Inr db'"
    by (cases "create_coords_dict a path") auto
  from d obtain vs where vs: "as_variables dv = Inr vs"
    and x: "xr_concat lib db (Scalar_path (coord_path c) vs) = Inr db'"
    by (cases "as_variables dv") (auto simp: xr_Dataset_def)
  from x have "db' = Path_axis (entries db @ [(coord_path c, vs)])"
    by (auto simp: xr_concat_def entries_def split: option.splits)
  with vs create_coords_dict_path [OF c] assms Inr show ?thesis
    by (auto simp: append_record_def)
qed

lemma save_finish:
  assumes sv: "save lib w a =
       (case r2 of Inl e \<Rightarrow> (w2, Inl e)
        | Inr db' \<Rightarrow> (case os_remove p w2 of
                         (w3, Inl e) \<Rightarrow> (w3, Inl e)
                       | (w3, Inr u) \<Rightarrow> to_netcdf db' p w3))"
    and fl: "files w2 p = Some c"
    and run: "save lib w a = (w', r)"
  shows "(\<forall>e. r2 = Inl e \<longrightarrow> w' = w2 \<and> r = Inl e)
       \<and> (\<forall>db'. r2 = Inr db' \<longrightarrow>
             (events w' = events w2 @ [Remove p] \<and> files w' = (files w2)(p := None)
                \<and> (\<exists>e. r = Inl e))
           \<or> (events w' = events w2 @ [Remove p, Write p db']
                \<and> files w' = (files w2)(p \<mapsto> Dataset_file db') \<and> r = Inr ()))"
proof (cases r2)
  case (Inl e)
  with sv run show ?thesis by simp
next
  case (Inr db')
  let ?w3 = "emit (Remove p) (w2\<lparr>files := (files w2)(p := None)\<rparr>)"
  have rm: "os_remove p w2 = (?w3, Inr ())" using fl by (simp add: os_remove_def)
  have "save lib w a = to_netcdf db' p ?w3"
    using sv by (simp only: Inr rm sum.case prod.case)
  with run have nc: "to_netcdf db' p ?w3 = (w', r)" by simp
  show ?thesis
  proof (cases "write_error ?w3 db'")
    case (Some e)
    with nc have "w' = ?w3" "r = Inl e" by (simp_all add: to_netcdf_def)
    with Inr show ?thesis by simp
  next
    case None
    with nc have "w' = emit (Write p db') (?w3\<lparr>files := (files ?w3)(p \<mapsto> Dataset_file db')\<rparr>)"
      "r = Inr ()" by (simp_all add: to_netcdf_def)
    with Inr show ?thesis by simp
  qed
qed

lemma save_branch:
  assumes gfp: "get_full_path w a (image_select a) = (w1, path)"
    and dv: "create_data_dict lib a = Inr dv"
    and dbp: "get_db_path w a = Some p"
    and fl: "files w p = Some (Dataset_file db)"
    and paths: "path_values db = Inr paths"
    and br: "(if path \<in> set paths
              then update_fields lib path dv db (print ''trying to update DB for existing path'' w1)
              else append_record lib a path dv db (print ''trying to update DB with new path'' w1))
             = (w2, r2)"
  shows "save lib w a =
       (case r2 of Inl e \<Rightarrow> (w2, Inl e)
        | Inr db' \<Rightarrow> (case os_remove p w2 of
                         (w3, Inl e) \<Rightarrow> (w3, Inl e)
                       | (w3, Inr u) \<Rightarrow> to_netcdf db' p w3))"
proof -
  note w1 = get_full_path_world [OF gfp]
  have dbp1: "get_db_path w1 a = Some p" using dbp get_db_path_dirs [OF w1(3), of a] by simp
  have isf: "isfile w1 p" using fl w1(1) by (simp add: isfile_def)
  have op: "open_dataset w1 (Some p) = Inr db" using fl w1(1) by (simp add: open_dataset_def)
  show ?thesis
    using save_existing_file [OF gfp dv dbp1 isf]
    by (simp only: op paths br sum.case prod.case)
qed


section \<open>The example, saved\<close>

lemma example_tables:
  "get_roi_data_by_index (rois example_app)
     = Inr ((np_full 50 4 NaN)[0 := [Fl 1, Fl 1, Fl 2, Fl 2]])"
  "get_vector_data_by_index (vectors example_app)
     = Inr ((np_full 50 4 NaN)[0 := [Fl 0, Fl 1, Fl 0, Fl 1]])"
  by (simp_all add: get_roi_data_by_index_def get_vector_data_by_index_def example_app_def
      get_roi_params_def get_vector_params_def py_index_def set_row_def np_full_def)

lemma example_projection:
  "get_current_image example_app = Inr (Stack [[[1, 2], [3, 4]], [[5, 0], [2, 9]]])"
  "calculate_2d_projection example_app = Inr (Some [[5, 2], [3, 9]])"
  by (simp_all add: calculate_2d_projection_def get_current_image_def example_app_def
      py_index_def np_max_axis0_def)

lemma example_data_dict: "create_data_dict example_library example_app = Inr example_data_vars"
  by (simp add: create_data_dict_def example_projection example_tables py_float_def
      example_data_vars_def, simp add: example_library_def example_app_def)

lemma ndim_of_table: "t \<noteq> [] \<Longrightarrow> ndim (of_table t) = 2"
proof -
  assume "t \<noteq> []"
  then obtain r rest where t: "t = r # rest" by (cases t) auto
  show ?thesis by (cases r) (simp_all add: t of_table_def)
qed

lemma ndim_of_pixels: "p \<noteq> [] \<Longrightarrow> ndim (of_pixels p) = 2"
proof -
  assume "p \<noteq> []"
  then obtain r rest where p: "p = r # rest" by (cases p) auto
  show ?thesis by (cases r) (simp_all add: p of_pixels_def)
qed

lemma example_variables: "as_variables example_data_vars = Inr example_record"
proof -
  have "(np_full 50 4 NaN)[0 := v] \<noteq> []" for v by (simp add: np_full_def)
  then show ?thesis
    by (simp add: example_data_vars_def example_record_def as_variable_def ndim_of_table
        ndim_of_pixels)
qed

lemma example_full_path:
  assumes "walk w = walk example_world"
  shows "get_full_path w example_app (image_select example_app) = (w, Some ''/data/a.tif'')"
proof -
  have "get_file_paths w example_app IMAGE_EXT = get_file_paths example_world example_app IMAGE_EXT"
    using assms by (simp add: get_file_paths_def)
  then have "filter (\<lambda>f. endswith f ''/a.tif'') (get_file_paths w example_app IMAGE_EXT)
      = [''/data/a.tif'', ''/data/s/a.tif'']"
    by (simp add: example_paths endswith_def)
  moreover have "image_select example_app = ''/a.tif''" by (simp add: example_app_def)
  ultimately show ?thesis by (simp add: get_full_path_def py_index_def)
qed

lemma example_db_path:
  assumes "dirs w = dirs example_world"
  shows "get_db_path w example_app = Some ''/data/db.nc''"
  using assms by (simp add: get_db_path_def example_world_def example_app_def os_path_join_def)

lemma example_append:
  "append_record example_library example_app (Some ''/data/a.tif'') example_data_vars db w
     = (emit (Concat (Some ''/data/a.tif'')) w,
        Inr (Path_axis (entries db @ [(Some ''/data/a.tif'', example_record)])))"
proof -
  obtain c where c: "create_coords_dict example_app (Some ''/data/a.tif'') = Inr c"
    by (simp add: create_coords_dict_def example_projection shape_def)
  have p: "coord_path c = Some ''/data/a.tif''" using c by (rule create_coords_dict_path)
  have "xr_Dataset example_data_vars c = Inr (Scalar_path (Some ''/data/a.tif'') example_record)"
    by (simp add: xr_Dataset_def example_variables p)
  moreover have "xr_concat example_library db (Scalar_path (Some ''/data/a.tif'') example_record)
      = Inr (Path_axis (entries db @ [(Some ''/data/a.tif'', example_record)]))"
    by (simp add: xr_concat_def example_library_def entries_def)
  ultimately show ?thesis by (simp add: append_record_def c)
qed

lemma full_disk_world_facts:
  "walk full_disk_world = walk example_world"
  "dirs full_disk_world = dirs example_world"
  "events full_disk_world = []"
  "files full_disk_world ''/data/db.nc'' = Some (Dataset_file (Scalar_path (Some ''/data/b.tif'') []))"
  "write_error full_disk_world d = Some (OSError ''No space left on device'')"
  by (simp_all add: full_disk_world_def stored_world_def example_world_def)

lemma save_full_disk:
  "save example_library full_disk_world example_app
     = (emit (Remove ''/data/db.nc'')
          ((emit (Concat (Some ''/data/a.tif''))
              (print ''trying to update DB with new path'' full_disk_world))
             \<lparr>files := (files full_disk_world)(''/data/db.nc'' := None)\<rparr>),
        Inl (OSError ''No space left on device''))"
proof -
  let ?w = "print ''trying to update DB with new path'' full_disk_world"
  let ?db = "Scalar_path (Some ''/data/b.tif'') []"
  have paths: "path_values ?db = Inr [Some ''/data/b.tif'']" by (simp add: path_values_def)
  have br: "(if Some ''/data/a.tif'' \<in> set [Some ''/data/b.tif'']
             then update_fields example_library (Some ''/data/a.tif'') example_data_vars ?db
                    (print ''trying to update DB for existing path'' full_disk_world)
             else append_record example_library example_app (Some ''/data/a.tif'')
                    example_data_vars ?db ?w)
      = (emit (Concat (Some ''/data/a.tif'')) ?w,
         Inr (Path_axis (entries ?db @ [(Some ''/data/a.tif'', example_record)])))"
    by (simp add: example_append)
  note sv = save_branch [OF example_full_path [OF full_disk_world_facts(1)] example_data_dict
      example_db_path [OF full_disk_world_facts(2)] full_disk_world_facts(4) paths br]
  show ?thesis
    by (simp only: sv sum.case)
       (simp add: os_remove_def to_netcdf_def full_disk_world_facts)
qed

text \<open>
  The example with a dataset file of another recording and a full disk: the record is
  appended in memory, the file is removed, the write raises, and no file is left.
\<close>

theorem save_not_atomic_witness:
  "get_db_path full_disk_world example_app = Some ''/data/db.nc''
   \<and> files full_disk_world ''/data/db.nc''
       = Some (Dataset_file (Scalar_path (Some ''/data/b.tif'') []))
   \<and> (\<exists>w'. save example_library full_disk_world example_app
               = (w', Inl (OSError ''No space left on device''))
          \<and> events w' = [Concat (Some ''/data/a.tif''), Remove ''/data/db.nc'']
          \<and> files w' = (files full_disk_world)(''/data/db.nc'' := None)
          \<and> files w' ''/data/db.nc'' = None)"
proof -
  let ?w' = "emit (Remove ''/data/db.nc'')
          ((emit (Concat (Some ''/data/a.tif''))
              (print ''trying to update DB with new path'' full_disk_world))
             \<lparr>files := (files full_disk_world)(''/data/db.nc'' := None)\<rparr>)"
  note dbp = example_db_path [OF full_disk_world_facts(2)]
  note fl = full_disk_world_facts(4)
  note run = save_full_disk
  have ev: "events ?w' = [Concat (Some ''/data/a.tif''), Remove ''/data/db.nc'']"
    by (simp add: full_disk_world_facts)
  from save_not_atomic [OF dbp fl run] obtain as where as: "list_all field_event as"
    and cases: "(events ?w' = events full_disk_world @ as \<and> files ?w' = files full_disk_world)
      \<or> (events ?w' = events full_disk_world @ as @ [Remove ''/data/db.nc'']
          \<and> files ?w' = (files full_disk_world)(''/data/db.nc'' := None))
      \<or> (\<exists>d. Inl (OSError ''No space left on device'') = (Inr () :: error + unit))"
    by blast
  have not_first: "\<not> (events ?w' = events full_disk_world @ as)"
  proof
    assume "events ?w' = events full_disk_world @ as"
    then have "as = [Concat (Some ''/data/a.tif''), Remove ''/data/db.nc'']"
      using ev by (simp add: full_disk_world_facts)
    with as show False by (simp add: field_event_def)
  qed
  with cases have f: "files ?w' = (files full_disk_world)(''/data/db.nc'' := None)" by auto
  then have "files ?w' ''/data/db.nc'' = None" by simp
  with dbp fl run ev f show ?thesis by blast
qed

text \<open>
  What the two branches of \<^verbatim>\<open>save\<close> do when a dataset file exists and the test
  \<^verbatim>\<open>path in db['path'].values\<close> is reached. For a path among the labels, \<^verbatim>\<open>save\<close> only
  assigns to fields, and only to fields for which the comparison of the script finds a
  difference; when it completes, these are all such fields, in the order of the data
  dictionary, and the written dataset has the same labels. For a path not among the labels,
  \<^verbatim>\<open>save\<close> assigns to no field; when it completes, it has appended one record under that
  path, holding every field of the data dictionary, after the records that were there.
\<close>

lemma save_update_or_append:
  assumes gfp: "get_full_path w a (image_select a) = (w1, path)"
    and dv: "create_data_dict lib a = Inr dv"
    and dbp: "get_db_path w a = Some p"
    and fl: "files w p = Some (Dataset_file db)"
    and paths: "path_values db = Inr paths"
    and run: "save lib w a = (w', r)"
  shows "(path \<in> set paths \<longrightarrow>
           (\<exists>ks tail. events w' = events w @ map Assign ks @ tail
              \<and> (\<forall>k \<in> set ks. field_differs db path dv k)
              \<and> (\<forall>k. Assign k \<notin> set tail) \<and> Concat path \<notin> set tail
              \<and> (r = Inr () \<longrightarrow>
                    ks = filter (field_differs db path dv) (map fst dv)
                    \<and> (\<exists>d. tail = [Remove p, Write p d] \<and> path_values d = Inr paths
                           \<and> files w' p = Some (Dataset_file d)))))
       \<and> (path \<notin> set paths \<longrightarrow>
           (\<exists>tail. events w' = events w @ tail \<and> (\<forall>k. Assign k \<notin> set tail)
              \<and> (r = Inr () \<longrightarrow>
                    (\<exists>vs. as_variables dv = Inr vs \<and> map fst vs = map fst dv
                       \<and> tail = [Concat path, Remove p,
                                   Write p (Path_axis (entries db @ [(path, vs)]))]
                       \<and> files w' p
                           = Some (Dataset_file (Path_axis (entries db @ [(path, vs)])))))))"
proof (intro conjI impI)
  assume mem: "path \<in> set paths"
  let ?w = "print ''trying to update DB for existing path'' w1"
  obtain w2 r2 where uf: "update_fields lib path dv db ?w = (w2, r2)"
    by (cases "update_fields lib path dv db ?w") auto
  note w1 = get_full_path_world [OF gfp]
  have e0: "events ?w = events w" using w1(2) by simp
  from update_fields_trace [OF create_data_dict_distinct [OF dv] uf] obtain ks where
    ks0: "events w2 = events ?w @ map Assign ks"
    and ks2: "\<forall>k \<in> set ks. field_differs db path dv k"
    and ks3: "\<forall>db'. r2 = Inr db' \<longrightarrow> ks = filter (field_differs db path dv) (map fst dv)
             \<and> path_values db' = path_values db"
    by blast
  have ks1: "events w2 = events w @ map Assign ks" using ks0 e0 by simp
  note ks = ks1 ks2 ks3
  have f2: "files w2 = files w" using update_fields_world [OF uf] w1(1) by simp
  have fl2: "files w2 p = Some (Dataset_file db)" using f2 fl by simp
  have br: "(if path \<in> set paths
              then update_fields lib path dv db (print ''trying to update DB for existing path'' w1)
              else append_record lib a path dv db (print ''trying to update DB with new path'' w1))
             = (w2, r2)" using mem uf by simp
  have fin: "(\<forall>e. r2 = Inl e \<longrightarrow> w' = w2 \<and> r = Inl e)
       \<and> (\<forall>db'. r2 = Inr db' \<longrightarrow>
             (events w' = events w2 @ [Remove p] \<and> files w' = (files w2)(p := None)
                \<and> (\<exists>e. r = Inl e))
           \<or> (events w' = events w2 @ [Remove p, Write p db']
                \<and> files w' = (files w2)(p \<mapsto> Dataset_file db') \<and> r = Inr ()))"
    by (rule save_finish [OF save_branch [OF gfp dv dbp fl paths br] fl2 run])
  show "\<exists>ks tail. events w' = events w @ map Assign ks @ tail
              \<and> (\<forall>k \<in> set ks. field_differs db path dv k)
              \<and> (\<forall>k. Assign k \<notin> set tail) \<and> Concat path \<notin> set tail
              \<and> (r = Inr () \<longrightarrow>
                    ks = filter (field_differs db path dv) (map fst dv)
                    \<and> (\<exists>d. tail = [Remove p, Write p d] \<and> path_values d = Inr paths
                           \<and> files w' p = Some (Dataset_file d)))"
  proof (cases r2)
    case (Inl e)
    with fin have "w' = w2" "r = Inl e" by simp_all
    then show ?thesis
      using ks(1,2) by (intro exI [of _ ks] exI [of _ "[]"]) simp
  next
    case (Inr db')
    with ks(3) have k3: "ks = filter (field_differs db path dv) (map fst dv)"
      and pv: "path_values db' = Inr paths" using paths by simp_all
    from fin [THEN conjunct2, rule_format, OF Inr] show ?thesis
    proof (elim disjE conjE exE)
      fix e assume "events w' = events w2 @ [Remove p]" "r = Inl e"
      then show ?thesis
        using ks(1,2) by (intro exI [of _ ks] exI [of _ "[Remove p]"]) simp
    next
      assume "events w' = events w2 @ [Remove p, Write p db']"
        "files w' = (files w2)(p \<mapsto> Dataset_file db')" "r = Inr ()"
      then have ev: "events w' = events w @ map Assign ks @ [Remove p, Write p db']"
        and fw: "files w' p = Some (Dataset_file db')"
        using ks(1) by simp_all
      have wr: "\<exists>d. [Remove p, Write p db'] = [Remove p, Write p d]
          \<and> path_values d = Inr paths \<and> files w' p = Some (Dataset_file d)"
        using pv fw by (intro exI [of _ db']) simp
      show ?thesis
        by (intro exI [of _ ks] exI [of _ "[Remove p, Write p db']"] conjI impI ev ks(2) k3 wr)
          simp_all
    qed
  qed
next
  assume new: "path \<notin> set paths"
  let ?w = "print ''trying to update DB with new path'' w1"
  obtain w2 r2 where ap: "append_record lib a path dv db ?w = (w2, r2)"
    by (cases "append_record lib a path dv db ?w") auto
  note w1 = get_full_path_world [OF gfp]
  note res = append_record_result [OF ap]
  have f2: "files w2 = files w" using append_record_world [OF ap] w1(1) by simp
  have fl2: "files w2 p = Some (Dataset_file db)" using f2 fl by simp
  have br: "(if path \<in> set paths
              then update_fields lib path dv db (print ''trying to update DB for existing path'' w1)
              else append_record lib a path dv db (print ''trying to update DB with new path'' w1))
             = (w2, r2)" using new ap by simp
  have fin: "(\<forall>e. r2 = Inl e \<longrightarrow> w' = w2 \<and> r = Inl e)
       \<and> (\<forall>db'. r2 = Inr db' \<longrightarrow>
             (events w' = events w2 @ [Remove p] \<and> files w' = (files w2)(p := None)
                \<and> (\<exists>e. r = Inl e))
           \<or> (events w' = events w2 @ [Remove p, Write p db']
                \<and> files w' = (files w2)(p \<mapsto> Dataset_file db') \<and> r = Inr ()))"
    by (rule save_finish [OF save_branch [OF gfp dv dbp fl paths br] fl2 run])
  show "\<exists>tail. events w' = events w @ tail \<and> (\<forall>k. Assign k \<notin> set tail)
              \<and> (r = Inr () \<longrightarrow>
                    (\<exists>vs. as_variables dv = Inr vs \<and> map fst vs = map fst dv
                       \<and> tail = [Concat path, Remove p,
                                   Write p (Path_axis (entries db @ [(path, vs)]))]
                       \<and> files w' p
                           = Some (Dataset_file (Path_axis (entries db @ [(path, vs)])))))"
  proof (cases r2)
    case (Inl e)
    with fin res have "w' = w2" "r = Inl e" "w2 = ?w" by simp_all
    then show ?thesis
      using w1(2) by (intro exI [of _ "[]"]) simp
  next
    case (Inr db')
    with res obtain vs where w2: "w2 = emit (Concat path) ?w"
      and vs: "as_variables dv = Inr vs" and db': "db' = Path_axis (entries db @ [(path, vs)])"
      by blast
    have e2: "events w2 = events w @ [Concat path]" using w2 w1(2) by simp
    note keys = as_variables_keys [OF vs]
    from fin [THEN conjunct2, rule_format, OF Inr] show ?thesis
    proof (elim disjE conjE exE)
      fix e assume "events w' = events w2 @ [Remove p]" "r = Inl e"
      then show ?thesis
        using e2 by (intro exI [of _ "[Concat path, Remove p]"]) simp
    next
      assume "events w' = events w2 @ [Remove p, Write p db']"
        "files w' = (files w2)(p \<mapsto> Dataset_file db')" "r = Inr ()"
      then show ?thesis
        using e2 vs keys db'
        by (intro exI [of _ "[Concat path, Remove p, Write p db']"]) simp
    qed
  qed
qed

section \<open>An unchanged recording, saved again\<close>

lemma array_field_differs:
  assumes "stored_value db path key = Inr stored" and "map_of dv key = Some (Var dims arr)"
  shows "field_differs db path dv key"
  using assms by (simp add: field_differs_def)

lemma saved_world_facts:
  "walk saved_world = walk example_world"
  "dirs saved_world = dirs example_world"
  "events saved_world = []"
  "files saved_world ''/data/db.nc''
     = Some (Dataset_file (Scalar_path (Some ''/data/a.tif'') example_record))"
  "write_error saved_world d = None"
  by (simp_all add: saved_world_def stored_world_def example_world_def)

lemma example_update:
  "update_fields example_library (Some ''/data/a.tif'') example_data_vars
     (Scalar_path (Some ''/data/a.tif'') example_record) w
   = (emit (Assign ''vector_data'') (emit (Assign ''roi_data'') (emit (Assign ''2d_projection'') w)),
      Inr (Scalar_path (Some ''/data/a.tif'') example_record))"
proof -
  have "(np_full 50 4 NaN)[0 := v] \<noteq> []" for v by (simp add: np_full_def)
  then have nd: "ndim (of_table ((np_full 50 4 NaN)[0 := v])) = 2" for v
    by (rule ndim_of_table)
  show ?thesis
    by (simp add: example_data_vars_def example_record_def path_is_str_def var_get_def
        dict_get_def var_set_def as_variable_def nd ndim_of_pixels number_ne_def to_float_def)
qed

lemma save_saved_world:
  "save example_library saved_world example_app
     = (emit (Write ''/data/db.nc'' (Scalar_path (Some ''/data/a.tif'') example_record))
          ((emit (Remove ''/data/db.nc'')
             ((emit (Assign ''vector_data'') (emit (Assign ''roi_data'')
                 (emit (Assign ''2d_projection'')
                    (print ''trying to update DB for existing path'' saved_world))))
               \<lparr>files := (files saved_world)(''/data/db.nc'' := None)\<rparr>))
            \<lparr>files := (files saved_world)(''/data/db.nc''
                 \<mapsto> Dataset_file (Scalar_path (Some ''/data/a.tif'') example_record))\<rparr>),
        Inr ())"
proof -
  let ?w = "print ''trying to update DB for existing path'' saved_world"
  let ?db = "Scalar_path (Some ''/data/a.tif'') example_record"
  have paths: "path_values ?db = Inr [Some ''/data/a.tif'']" by (simp add: path_values_def)
  have br: "(if Some ''/data/a.tif'' \<in> set [Some ''/data/a.tif'']
             then update_fields example_library (Some ''/data/a.tif'') example_data_vars ?db ?w
             else append_record example_library example_app (Some ''/data/a.tif'')
                    example_data_vars ?db (print ''trying to update DB with new path'' saved_world))
      = (emit (Assign ''vector_data'') (emit (Assign ''roi_data'') (emit (Assign ''2d_projection'') ?w)),
         Inr ?db)"
    by (simp add: example_update)
  note sv = save_branch [OF example_full_path [OF saved_world_facts(1)] example_data_dict
      example_db_path [OF saved_world_facts(2)] saved_world_facts(4) paths br]
  show ?thesis
    by (simp only: sv sum.case)
       (simp add: os_remove_def to_netcdf_def saved_world_facts)
qed

text \<open>
  Claim C1. The example is saved a second time with nothing changed: the dataset file
  holds one record under the path of the current image, and every stored field equals the
  value in memory; in particular the stored projection is the projection in memory. The
  claim has \<^verbatim>\<open>save\<close> write no field then. The script writes the three array fields
  \<^verbatim>\<open>2d_projection\<close>, \<^verbatim>\<open>roi_data\<close> and \<^verbatim>\<open>vector_data\<close>, because the test
  \<^verbatim>\<open>stored.values.tolist() != value\<close> compares a list with the tuple \<^verbatim>\<open>(dims, array)\<close> of the
  data dictionary, and these are never equal; only the four numbers are compared by value
  and left alone.
\<close>

theorem save_rewrites_unchanged_arrays:
  "files saved_world ''/data/db.nc''
     = Some (Dataset_file (Scalar_path (Some ''/data/a.tif'') example_record))
   \<and> get_full_path saved_world example_app (image_select example_app)
       = (saved_world, Some ''/data/a.tif'')
   \<and> create_data_dict example_library example_app = Inr example_data_vars
   \<and> stored_value (Scalar_path (Some ''/data/a.tif'') example_record) (Some ''/data/a.tif'')
        ''2d_projection'' = Inr (of_pixels [[5, 2], [3, 9]])
   \<and> map_of example_data_vars ''2d_projection''
       = Some (Var [''x'', ''y''] (Some (of_pixels [[5, 2], [3, 9]])))
   \<and> as_variables example_data_vars = Inr example_record
   \<and> (\<exists>w'. save example_library saved_world example_app = (w', Inr ())
         \<and> events w' = [Assign ''2d_projection'', Assign ''roi_data'', Assign ''vector_data'',
                         Remove ''/data/db.nc'',
                         Write ''/data/db.nc'' (Scalar_path (Some ''/data/a.tif'') example_record)])"
proof -
  have sv: "stored_value (Scalar_path (Some ''/data/a.tif'') example_record) (Some ''/data/a.tif'')
        ''2d_projection'' = Inr (of_pixels [[5, 2], [3, 9]])"
    by (simp add: stored_value_def path_is_str_def var_get_def dict_get_def example_record_def)
  have dv: "map_of example_data_vars ''2d_projection''
       = Some (Var [''x'', ''y''] (Some (of_pixels [[5, 2], [3, 9]])))"
    by (simp add: example_data_vars_def)
  have run: "\<exists>w'. save example_library saved_world example_app = (w', Inr ())
         \<and> events w' = [Assign ''2d_projection'', Assign ''roi_data'', Assign ''vector_data'',
                         Remove ''/data/db.nc'',
                         Write ''/data/db.nc'' (Scalar_path (Some ''/data/a.tif'') example_record)]"
    by (simp add: save_saved_world saved_world_facts)
  show ?thesis
    by (intro conjI saved_world_facts(4) example_full_path [OF saved_world_facts(1)]
        example_data_dict sv dv example_variables run)
qed

section \<open>The state flags\<close>



















end
